theory Spec2Isabelle
  imports Main "HOL-Library.Word"
begin

unbundle bit_operations_syntax

text \<open>
  A shallow embedding of three parts of the firmware: the system call hooks of the
  kernel extension (\<open>signalSvcEntry\<close>, \<open>signalSvcReturn\<close>, \<open>svcHook\<close>), its
  extended unmap call (\<open>UnmapProcessMemoryEx\<close>), and the command handler of the fatal
  error service of the Rosalina system module (\<open>ERRF_HandleCommands\<close>, with
  \<open>waitInput\<close>, \<open>menuEnter\<close> and \<open>menuLeave\<close> of the menu). State is passed
  explicitly; a function that may wait forever returns an \<open>option\<close>.
\<close>

section \<open>Machine types\<close>

type_synonym u8 = "8 word"
type_synonym u32 = "32 word"

text \<open>
  Kernel objects are referred to by their identity. A C pointer that the code compares
  with \<open>NULL\<close> is an \<open>option\<close>; \<open>None\<close> is \<open>NULL\<close>.
\<close>

type_synonym kprocess = nat
type_synonym kthread = nat
type_synonym kevent = nat
type_synonym kdebug = nat

section \<open>Kernel extension: the SVC hooks (svc.c)\<close>

text \<open>
  The values \<open>svcHook\<close> can return: \<open>NULL\<close>, an address inside the unmodified
  kernel image (what \<open>officialSVCs\<close> is filled with), or one of the replacement
  handlers named in the \<open>switch\<close>.
\<close>

datatype fnptr =
    NULL
  | KernelCode u32
  | Fn_ControlMemoryHookWrapper
  | Fn_GetHandleInfoHookWrapper
  | Fn_GetSystemInfoHookWrapper
  | Fn_GetProcessInfoHookWrapper
  | Fn_GetThreadInfoHookWrapper
  | Fn_ConnectToPortHookWrapper
  | Fn_GetCFWInfo
  | Fn_SendSyncRequestHook
  | Fn_Break
  | Fn_SetGpuProt
  | Fn_SetWifiEnabled
  | Fn_Backdoor
  | Fn_KernelSetStateHook
  | Fn_CustomBackdoor
  | Fn_convertVAToPA
  | Fn_flushDataCacheRange
  | Fn_flushEntireDataCache
  | Fn_invalidateInstructionCacheRange
  | Fn_invalidateEntireInstructionCache
  | Fn_MapProcessMemoryExWrapper
  | Fn_UnmapProcessMemoryEx
  | Fn_ControlMemoryEx
  | Fn_ControlMemoryUnsafeWrapper
  | Fn_ControlService
  | Fn_CopyHandleWrapper
  | Fn_TranslateHandleWrapper
  | Fn_ControlProcess

text \<open>
  Calls into the kernel whose bodies are not part of the sources are recorded, in order,
  in the \<open>effects\<close> log of the state.
\<close>

datatype effect =
    SignalDebugEvent_OUTPUT_STRING u32 u32
  | SignalEvent kevent
  | PLG_SignalEvent_EXIT
  | KRecursiveLock_Lock
  | KRecursiveLock_Unlock
  | HwInfo_UnmapProcessMemory kprocess u32 u32
  | InvalidateEntireInstructionCache
  | FlushEntireDataCache

text \<open>The members of \<open>KThread\<close> that the hooks read or write.\<close>

record KThread =
  ownerProcess :: "kprocess option"
  schedulingMask :: u8
  shallTerminate :: bool

text \<open>
  The kernel state the hooks run on. \<open>mem\<close> is the byte-addressed memory holding the
  kernel stack page of the calling thread; \<open>currentProcess\<close> is
  \<open>currentCoreContext->objectContext.currentProcess\<close>, which the hooks dereference
  without a check; \<open>threads\<close> is the store of \<open>KThread\<close> objects and
  \<open>threadList\<close> the keys of the global list in traversal order; \<open>handleTable\<close> is
  the handle table of the current process; \<open>officialSVCs\<close> is the table of original
  handlers, read at indices \<open>0 .. 0x7D\<close> only.
\<close>

record kernel =
  mem :: "u32 \<Rightarrow> u8"
  currentProcess :: kprocess
  customFlags :: "kprocess \<Rightarrow> u32"
  debugOfProcess :: "kprocess \<Rightarrow> kdebug option"
  shouldSignalSyscallDebugEvent :: "kprocess \<Rightarrow> u32 \<Rightarrow> bool"
  onMemoryLayoutChangeEvent :: "kprocess \<Rightarrow> kevent"
  plgRunning :: bool
  threadList :: "kthread list"
  threads :: "kthread \<Rightarrow> KThread"
  officialSVCs :: "nat \<Rightarrow> fnptr"
  kernelVersion :: u32
  handleTable :: "u32 \<rightharpoonup> kprocess"
  refCount :: "kprocess \<Rightarrow> int"
  hwUnmapResult :: "kprocess \<Rightarrow> u32 \<Rightarrow> u32 \<Rightarrow> u32"
  effects :: "effect list"

text \<open>
  Enumerators and macros of headers that are not part of the sources (\<open>kernel.h\<close>,
  \<open>types.h\<close>) are taken as parameters: the three \<open>KProcessCustomFlags\<close> bits the
  hooks test, the pseudo handle \<open>CUR_PROCESS_HANDLE\<close>, and the macro
  \<open>GET_VERSION_MINOR\<close>.
\<close>

record decls =
  SignalOnExit :: u32
  SignalOnMemLayoutChanges :: u32
  MemLayoutChanged :: u32
  CUR_PROCESS_HANDLE :: u32
  GET_VERSION_MINOR :: "u32 \<Rightarrow> u32"

subsection \<open>Reading the saved frame\<close>

text \<open>\<open>*(u8 *)p\<close> and \<open>*(u32 *)p\<close> on the little-endian ARM11.\<close>

definition read_u8 :: "kernel \<Rightarrow> u32 \<Rightarrow> u8" where
  "read_u8 s p = mem s p"

definition read_u32 :: "kernel \<Rightarrow> u32 \<Rightarrow> u32" where
  "read_u32 s p =
     ucast (mem s p) OR push_bit 8 (ucast (mem s (p + 1)))
       OR push_bit 16 (ucast (mem s (p + 2))) OR push_bit 24 (ucast (mem s (p + 3)))"

text \<open>The first lines of \<open>signalSvcEntry\<close>: the identifier it works with.\<close>

definition signalSvcEntry_svcId :: "kernel \<Rightarrow> u32 \<Rightarrow> u32" where
  "signalSvcEntry_svcId s pageEnd =
     (let svcId = (ucast (read_u8 s (pageEnd - 0xB5)) :: u32)
      in if svcId = 0xFE then read_u32 s (pageEnd - 0x110 + 8 * 4) else svcId)"

definition signalSvcEntry :: "kernel \<Rightarrow> u32 \<Rightarrow> kernel" where
  "signalSvcEntry s pageEnd =
     (let svcId = signalSvcEntry_svcId s pageEnd;
          cur = currentProcess s
      in if debugOfProcess s cur \<noteq> None \<and> shouldSignalSyscallDebugEvent s cur svcId
         then s\<lparr>effects := effects s @ [SignalDebugEvent_OUTPUT_STRING 0xFFFFFFFE svcId]\<rparr>
         else s)"

text \<open>The first lines of \<open>signalSvcReturn\<close>: the identifier it works with.\<close>

definition signalSvcReturn_svcId :: "kernel \<Rightarrow> u32 \<Rightarrow> u32" where
  "signalSvcReturn_svcId s pageEnd =
     (let svcId = (ucast (read_u8 s (pageEnd - 0xB5)) :: u32)
      in if svcId = 0xFE then read_u32 s (pageEnd - 0x110 + 8 * 4) else svcId)"

definition signalSvcReturn :: "decls \<Rightarrow> kernel \<Rightarrow> u32 \<Rightarrow> kernel" where
  "signalSvcReturn d s pageEnd =
     (let svcId = signalSvcReturn_svcId s pageEnd;
          cur = currentProcess s;
          flags = customFlags s cur;
          s1 = (if debugOfProcess s cur \<noteq> None \<and> shouldSignalSyscallDebugEvent s cur svcId
                then s\<lparr>effects := effects s @ [SignalDebugEvent_OUTPUT_STRING 0xFFFFFFFF svcId]\<rparr>
                else s)
      in if flags AND SignalOnMemLayoutChanges d \<noteq> 0 \<and> flags AND MemLayoutChanged d \<noteq> 0
         then s1\<lparr>customFlags := (customFlags s1)(cur := flags AND NOT (MemLayoutChanged d)),
                 effects := effects s1 @ [SignalEvent (onMemoryLayoutChangeEvent s1 cur)]\<rparr>
         else s1)"

subsection \<open>The resolver\<close>

text \<open>
  The body of the \<open>for\<close> loop of case \<open>0x03\<close> on one list node, and the loop over
  the list.
\<close>

definition unlockThread :: "kprocess \<Rightarrow> (kthread \<Rightarrow> KThread) \<Rightarrow> kthread \<Rightarrow> (kthread \<Rightarrow> KThread)" where
  "unlockThread cur ts t =
     (if ownerProcess (ts t) = Some cur \<and> schedulingMask (ts t) AND 0x20 \<noteq> 0
      then ts(t := (ts t)\<lparr>schedulingMask := schedulingMask (ts t) AND NOT 0x20\<rparr>)
      else ts)"

fun unlockThreads :: "kprocess \<Rightarrow> kthread list \<Rightarrow> (kthread \<Rightarrow> KThread) \<Rightarrow> (kthread \<Rightarrow> KThread)" where
  "unlockThreads cur [] ts = ts"
| "unlockThreads cur (t # nodes) ts = unlockThreads cur nodes (unlockThread cur ts t)"

definition svcHook_svcId :: "kernel \<Rightarrow> u32 \<Rightarrow> u32" where
  "svcHook_svcId s pageEnd =
     (let svcId = (ucast (read_u8 s (pageEnd - 0xB5)) :: u32)
      in if svcId = 0xFE then read_u32 s (pageEnd - 0x110 + 8 * 4) else svcId)"

text \<open>Case \<open>0x03\<close> (\<open>svcExitProcess\<close>) of the \<open>switch\<close>.\<close>

definition svcHook_ExitProcess :: "decls \<Rightarrow> kernel \<Rightarrow> fnptr \<times> kernel" where
  "svcHook_ExitProcess d s =
     (let cur = currentProcess s;
          flags = customFlags s cur
      in if flags AND SignalOnExit d \<noteq> 0
         then
           (let s1 = (if plgRunning s then s\<lparr>effects := effects s @ [PLG_SignalEvent_EXIT]\<rparr> else s);
                s2 = s1\<lparr>effects := effects s1 @ [KRecursiveLock_Lock]\<rparr>;
                s3 = s2\<lparr>threads := unlockThreads cur (threadList s2) (threads s2)\<rparr>;
                s4 = s3\<lparr>effects := effects s3 @ [KRecursiveLock_Unlock]\<rparr>
            in (officialSVCs s4 0x3, s4))
         else (officialSVCs s 0x3, s))"

definition svcHook :: "decls \<Rightarrow> kernel \<Rightarrow> u32 \<Rightarrow> fnptr \<times> kernel" where
  "svcHook d s pageEnd =
     (let cur = currentProcess s;
          svcId = svcHook_svcId s pageEnd
      in if svcId = 0x01 then (Fn_ControlMemoryHookWrapper, s)
         else if svcId = 0x03 then svcHook_ExitProcess d s
         else if svcId = 0x29 then (Fn_GetHandleInfoHookWrapper, s)
         else if svcId = 0x2A then (Fn_GetSystemInfoHookWrapper, s)
         else if svcId = 0x2B then (Fn_GetProcessInfoHookWrapper, s)
         else if svcId = 0x2C then (Fn_GetThreadInfoHookWrapper, s)
         else if svcId = 0x2D then (Fn_ConnectToPortHookWrapper, s)
         else if svcId = 0x2E then (Fn_GetCFWInfo, s)
         else if svcId = 0x32 then (Fn_SendSyncRequestHook, s)
         else if svcId = 0x3C
           then (if debugOfProcess s cur \<noteq> None then officialSVCs s 0x3C else Fn_Break, s)
         else if svcId = 0x59 then (Fn_SetGpuProt, s)
         else if svcId = 0x5A then (Fn_SetWifiEnabled, s)
         else if svcId = 0x7B then (Fn_Backdoor, s)
         else if svcId = 0x7C then (Fn_KernelSetStateHook, s)
         else if svcId = 0x80 then (Fn_CustomBackdoor, s)
         else if svcId = 0x90 then (Fn_convertVAToPA, s)
         else if svcId = 0x91 then (Fn_flushDataCacheRange, s)
         else if svcId = 0x92 then (Fn_flushEntireDataCache, s)
         else if svcId = 0x93 then (Fn_invalidateInstructionCacheRange, s)
         else if svcId = 0x94 then (Fn_invalidateEntireInstructionCache, s)
         else if svcId = 0xA0 then (Fn_MapProcessMemoryExWrapper, s)
         else if svcId = 0xA1 then (Fn_UnmapProcessMemoryEx, s)
         else if svcId = 0xA2 then (Fn_ControlMemoryEx, s)
         else if svcId = 0xA3 then (Fn_ControlMemoryUnsafeWrapper, s)
         else if svcId = 0xB0 then (Fn_ControlService, s)
         else if svcId = 0xB1 then (Fn_CopyHandleWrapper, s)
         else if svcId = 0xB2 then (Fn_TranslateHandleWrapper, s)
         else if svcId = 0xB3 then (Fn_ControlProcess, s)
         else (if svcId \<le> 0x7D then officialSVCs s (unat svcId) else NULL, s))"

section \<open>Kernel extension: the extended unmap call (UnmapProcessMemoryEx.c)\<close>

text \<open>
  Modelled from the spec: \<open>KAutoObject__AddReference\<close>, a kernel function that is not
  part of the sources. The spec calls it a reference-count increment.
\<close>

definition KAutoObject__AddReference :: "kprocess \<Rightarrow> kernel \<Rightarrow> kernel" where
  "KAutoObject__AddReference p s = s\<lparr>refCount := (refCount s)(p := refCount s p + 1)\<rparr>"

text \<open>
  Modelled from the spec: the virtual \<open>DecrementReferenceCount\<close> of \<open>KAutoObject\<close>, a
  kernel function that is not part of the sources. The spec calls it the release of a
  reference; the destruction of an object whose count reaches zero is not modelled.
\<close>

definition DecrementReferenceCount :: "kprocess \<Rightarrow> kernel \<Rightarrow> kernel" where
  "DecrementReferenceCount p s = s\<lparr>refCount := (refCount s)(p := refCount s p - 1)\<rparr>"

text \<open>
  Modelled from the spec: \<open>KProcessHandleTable__ToKProcess\<close>, a kernel function that is
  not part of the sources. It resolves a handle of the current process to a process
  object and takes a reference on it; a handle that names no process yields \<open>NULL\<close>
  and leaves the registry as it was.
\<close>

definition KProcessHandleTable__ToKProcess :: "kernel \<Rightarrow> u32 \<Rightarrow> kprocess option \<times> kernel" where
  "KProcessHandleTable__ToKProcess s h =
     (case handleTable s h of
        None \<Rightarrow> (None, s)
      | Some p \<Rightarrow> (Some p, KAutoObject__AddReference p s))"

text \<open>
  Modelled from the spec: \<open>KProcessHwInfo__UnmapProcessMemory\<close>, a kernel function that
  is not part of the sources: the page-table unmap of a number of pages. The call is
  recorded in the log; its result is whatever the kernel answers (\<open>hwUnmapResult\<close>).
\<close>

definition KProcessHwInfo__UnmapProcessMemory :: "kprocess \<Rightarrow> u32 \<Rightarrow> u32 \<Rightarrow> kernel \<Rightarrow> u32 \<times> kernel" where
  "KProcessHwInfo__UnmapProcessMemory p dst pages s =
     (hwUnmapResult s p dst pages,
      s\<lparr>effects := effects s @ [HwInfo_UnmapProcessMemory p dst pages]\<rparr>)"

text \<open>
  Modelled from the spec: \<open>invalidateEntireInstructionCache\<close>, an assembly routine that
  is not part of the sources. The call is recorded in the log.
\<close>

definition invalidateEntireInstructionCache :: "kernel \<Rightarrow> kernel" where
  "invalidateEntireInstructionCache s = s\<lparr>effects := effects s @ [InvalidateEntireInstructionCache]\<rparr>"

text \<open>
  Modelled from the spec: \<open>flushEntireDataCache\<close>, an assembly routine that is not part
  of the sources. The call is recorded in the log.
\<close>

definition flushEntireDataCache :: "kernel \<Rightarrow> kernel" where
  "flushEntireDataCache s = s\<lparr>effects := effects s @ [FlushEntireDataCache]\<rparr>"

text \<open>
  Lines 540-546: the process the handle stands for. With \<open>CUR_PROCESS_HANDLE\<close> it is
  the current process, with a reference added.
\<close>

definition UnmapProcessMemoryEx_resolve :: "decls \<Rightarrow> kernel \<Rightarrow> u32 \<Rightarrow> kprocess option \<times> kernel" where
  "UnmapProcessMemoryEx_resolve d s processHandle =
     (if processHandle = CUR_PROCESS_HANDLE d
      then (Some (currentProcess s), KAutoObject__AddReference (currentProcess s) s)
      else KProcessHandleTable__ToKProcess s processHandle)"

text \<open>
  The legacy call \<open>UnmapProcessMemory\<close> of the kernel is a parameter: any function from
  the three arguments and the state to a result and a state. The handle table that the
  function computes first, \<open>handleTableOfProcess(currentProcess)\<close>, is the field
  \<open>handleTable\<close> of the state.
\<close>

type_synonym legacy_unmap = "u32 \<Rightarrow> u32 \<Rightarrow> u32 \<Rightarrow> kernel \<Rightarrow> u32 \<times> kernel"

definition UnmapProcessMemoryEx ::
  "decls \<Rightarrow> legacy_unmap \<Rightarrow> u32 \<Rightarrow> u32 \<Rightarrow> u32 \<Rightarrow> kernel \<Rightarrow> u32 \<times> kernel" where
  "UnmapProcessMemoryEx d UnmapProcessMemory processHandle dst size' s =
     (if GET_VERSION_MINOR d (kernelVersion s) < 37
      then UnmapProcessMemory processHandle dst size' s
      else
        (case UnmapProcessMemoryEx_resolve d s processHandle of
           (None, s1) \<Rightarrow> (0xD8E007F7, s1)
         | (Some process, s1) \<Rightarrow>
             (let (res, s2) = KProcessHwInfo__UnmapProcessMemory process dst (drop_bit 12 size') s1;
                  s3 = DecrementReferenceCount process s2;
                  s4 = invalidateEntireInstructionCache s3;
                  s5 = flushEntireDataCache s4
              in (res, s5))))"

section \<open>Rosalina: waiting for input (menu.c)\<close>

text \<open>
  The state of the Rosalina system module that the error display service touches:
  the thread command buffer as words from \<open>cmdbuf[0]\<close> on, the stored banner
  \<open>userString\<close> as bytes from index 0 on, the flags \<open>menuShouldExit\<close> and
  \<open>isHidInitialized\<close>, \<open>menuRefCount\<close> (an \<open>s32\<close>), and the log of calls to the
  drawing and kernel-state primitives. Sleeping and the recursive draw lock are not
  recorded.
\<close>

datatype ui_event =
    KernelSetState_0x10000_3
  | Draw_AllocateFramebufferCache
  | Draw_SetupFramebuffer
  | Draw_RestoreFramebuffer
  | Draw_FreeFramebufferCache
  | Draw_ClearFramebuffer
  | Draw_FlushFramebuffer
  | DisplayError u32 u32

record rosalina =
  cmdbuf :: "nat \<Rightarrow> u32"
  userString :: "nat \<Rightarrow> u8"
  menuShouldExit :: bool
  isHidInitialized :: bool
  menuRefCount :: u32
  ui :: "ui_event list"

text \<open>
  Declarations of libctru and of headers that are not part of the sources, taken as
  parameters: the macro \<open>IPC_MakeHeader\<close>, the enumerator \<open>ERRF_ERRTYPE_LOGGED\<close>,
  the key mask \<open>DIRECTIONAL_KEYS\<close>, and the layout of \<open>ERRF_FatalErrInfo\<close>, given by
  the two members the command handler reads from the words copied out of the command
  buffer (\<open>info_type\<close>, \<open>info_procId\<close>).
\<close>

record rdecls =
  IPC_MakeHeader :: "u32 \<Rightarrow> u32 \<Rightarrow> u32 \<Rightarrow> u32"
  ERRF_ERRTYPE_LOGGED :: u32
  DIRECTIONAL_KEYS :: u32
  info_type :: "(nat \<Rightarrow> u32) \<Rightarrow> u32"
  info_procId :: "(nat \<Rightarrow> u32) \<Rightarrow> u32"

definition convertHidKeys :: "u32 \<Rightarrow> u32" where
  "convertHidKeys keys = keys"

text \<open>
  The \<open>do ... while\<close> loop of \<open>waitInputWithTimeout\<close>. Each element of the last
  argument is what \<open>hidKeysDown()\<close> and \<open>hidKeysDownRepeat()\<close> return after one
  \<open>hidScanInput()\<close>. The result is \<open>None\<close> when the loop is still waiting after the
  last of them. The counter \<open>n\<close> and \<open>msec\<close> are \<open>s32\<close>: they are compared as
  signed values, and the increment wraps.
\<close>

fun waitInputWithTimeout_loop ::
  "rdecls \<Rightarrow> rosalina \<Rightarrow> u32 \<Rightarrow> u32 \<Rightarrow> (u32 \<times> u32) list \<Rightarrow> u32 option" where
  "waitInputWithTimeout_loop r s msec n [] =
     (if \<not> isHidInitialized s \<or> menuShouldExit s then Some 0 else None)"
| "waitInputWithTimeout_loop r s msec n ((down, rep) # scans) =
     (if \<not> isHidInitialized s \<or> menuShouldExit s then Some 0
      else
        (let n' = n + 1;
             keys = convertHidKeys down OR (convertHidKeys rep AND DIRECTIONAL_KEYS r)
         in if keys = 0 \<and> \<not> menuShouldExit s \<and> isHidInitialized s
                 \<and> (sint msec < 0 \<or> sint n' < sint msec)
            then waitInputWithTimeout_loop r s msec n' scans
            else Some keys))"

definition waitInputWithTimeout :: "rdecls \<Rightarrow> rosalina \<Rightarrow> u32 \<Rightarrow> (u32 \<times> u32) list \<Rightarrow> u32 option" where
  "waitInputWithTimeout r s msec scans = waitInputWithTimeout_loop r s msec 0 scans"

definition waitInput :: "rdecls \<Rightarrow> rosalina \<Rightarrow> (u32 \<times> u32) list \<Rightarrow> u32 option" where
  "waitInput r s scans = waitInputWithTimeout r s (- 1) scans"

definition emit :: "ui_event list \<Rightarrow> rosalina \<Rightarrow> rosalina" where
  "emit es s = s\<lparr>ui := ui s @ es\<rparr>"

text \<open>
  \<open>menuEnter\<close> and \<open>menuLeave\<close>; \<open>allocOk\<close> says whether
  \<open>Draw_AllocateFramebufferCache\<close> succeeds.
\<close>

definition menuEnter :: "bool \<Rightarrow> rosalina \<Rightarrow> rosalina" where
  "menuEnter allocOk s =
     (if \<not> menuShouldExit s \<and> menuRefCount s = 0
      then
        (let s1 = emit [KernelSetState_0x10000_3, Draw_AllocateFramebufferCache]
                    (s\<lparr>menuRefCount := menuRefCount s + 1\<rparr>)
         in if \<not> allocOk
            then emit [KernelSetState_0x10000_3] (s1\<lparr>menuRefCount := 0\<rparr>)
            else emit [Draw_SetupFramebuffer] s1)
      else s)"

definition menuLeave :: "rosalina \<Rightarrow> rosalina" where
  "menuLeave s =
     (let s1 = s\<lparr>menuRefCount := menuRefCount s - 1\<rparr>
      in if menuRefCount s1 = 0
         then emit [Draw_RestoreFramebuffer, Draw_FreeFramebufferCache, KernelSetState_0x10000_3] s1
         else s1)"

section \<open>Rosalina: the fatal error service (errdisp.c)\<close>

text \<open>
  \<open>ERRF_DisplayError\<close> renders the record; the rendering is recorded as one event
  carrying the type and the process id of the record.
\<close>

definition ERRF_DisplayError :: "rdecls \<Rightarrow> (nat \<Rightarrow> u32) \<Rightarrow> rosalina \<Rightarrow> rosalina" where
  "ERRF_DisplayError r info s =
     emit [DisplayError (info_type r info) (info_procId r info), Draw_FlushFramebuffer] s"

text \<open>
  \<open>memcpy(userString, cmdbuf + 3, sz)\<close>: byte \<open>k\<close> of the source is byte \<open>k mod 4\<close>
  (little-endian) of the word \<open>cmdbuf[3 + k div 4]\<close>.
\<close>

definition cmdbuf_byte :: "(nat \<Rightarrow> u32) \<Rightarrow> nat \<Rightarrow> u8" where
  "cmdbuf_byte cb k = ucast (drop_bit (8 * (k mod 4)) (cb (3 + k div 4)))"

text \<open>Case 1 of the \<open>switch\<close>: Throw.\<close>

definition ERRF_Throw :: "rdecls \<Rightarrow> bool \<Rightarrow> (u32 \<times> u32) list \<Rightarrow> rosalina \<Rightarrow> rosalina option" where
  "ERRF_Throw r allocOk scans s =
     (let info = (\<lambda>k. cmdbuf s (1 + k));
          shown =
            (if \<not> menuShouldExit s
                 \<and> (info_type r info \<noteq> ERRF_ERRTYPE_LOGGED r \<or> info_procId r info = 0)
             then
               (let s1 = menuEnter allocOk s;
                    s2 = emit [Draw_ClearFramebuffer, Draw_FlushFramebuffer] s1;
                    s3 = ERRF_DisplayError r info s2
                in case waitInput r s3 scans of
                     None \<Rightarrow> None
                   | Some keys \<Rightarrow> Some (menuLeave s3))
             else Some s)
      in case shown of
           None \<Rightarrow> None
         | Some s4 \<Rightarrow> Some (s4\<lparr>cmdbuf := (cmdbuf s4)(0 := IPC_MakeHeader r 1 1 0, 1 := 0)\<rparr>))"

text \<open>Case 2 of the \<open>switch\<close>: SetUserString.\<close>

definition ERRF_SetUserString :: "rdecls \<Rightarrow> rosalina \<Rightarrow> rosalina" where
  "ERRF_SetUserString r s =
     (if cmdbuf s 0 \<noteq> IPC_MakeHeader r 2 1 2 \<or> cmdbuf s 2 AND 0x3C0F \<noteq> 2
      then s\<lparr>cmdbuf := (cmdbuf s)(0 := IPC_MakeHeader r 0 1 0, 1 := 0xD9001830)\<rparr>
      else
        (let sz = (if cmdbuf s 1 \<le> 0x100 then unat (cmdbuf s 1) else 0x100);
             copied = (\<lambda>k. if k < sz then cmdbuf_byte (cmdbuf s) k else userString s k)
         in s\<lparr>userString := copied(sz := 0),
              cmdbuf := (cmdbuf s)(0 := IPC_MakeHeader r 2 1 0, 1 := 0)\<rparr>))"

definition ERRF_HandleCommands ::
  "rdecls \<Rightarrow> bool \<Rightarrow> (u32 \<times> u32) list \<Rightarrow> rosalina \<Rightarrow> rosalina option" where
  "ERRF_HandleCommands r allocOk scans s =
     (let cmd = drop_bit 16 (cmdbuf s 0)
      in if cmd = 1 then ERRF_Throw r allocOk scans s
         else if cmd = 2 then Some (ERRF_SetUserString r s)
         else Some s)"

section \<open>Auxiliary notions and example states\<close>

text \<open>
  A replacement handler is any value of \<open>fnptr\<close> other than \<open>NULL\<close> and the
  addresses of the kernel image. \<open>customSvcIds\<close> lists the case labels of the
  \<open>switch\<close> in \<open>svcHook\<close> that lie above \<open>0x7D\<close>.
\<close>

definition isReplacement :: "fnptr \<Rightarrow> bool" where
  "isReplacement f = (case f of NULL \<Rightarrow> False | KernelCode a \<Rightarrow> False | _ \<Rightarrow> True)"

definition customSvcIds :: "u32 list" where
  "customSvcIds =
     [0x80, 0x90, 0x91, 0x92, 0x93, 0x94, 0xA0, 0xA1, 0xA2, 0xA3, 0xB0, 0xB1, 0xB2, 0xB3]"

text \<open>
  One choice of the header declarations, and concrete states on which the theorems
  below are exercised. The kernel state has its stack page ending at \<open>0xFF401000\<close>,
  the byte \<open>svcByte\<close> in the identifier slot and the value 3 in the saved \<open>r12\<close>
  slot; process 40 is current and owns thread 10, process 41 owns thread 11.
\<close>

definition example_decls :: decls where
  "example_decls =
     \<lparr>SignalOnExit = 0x2, SignalOnMemLayoutChanges = 0x1, MemLayoutChanged = 0x10000,
      CUR_PROCESS_HANDLE = 0xFFFF8001, GET_VERSION_MINOR = (\<lambda>v. drop_bit 16 v AND 0xFF)\<rparr>"

definition example_thread :: "kthread \<Rightarrow> KThread" where
  "example_thread t =
     (if t = 10 then \<lparr>ownerProcess = Some 40, schedulingMask = 0x21, shallTerminate = False\<rparr>
      else if t = 11 then \<lparr>ownerProcess = Some 41, schedulingMask = 0x20, shallTerminate = False\<rparr>
      else \<lparr>ownerProcess = None, schedulingMask = 0, shallTerminate = False\<rparr>)"

definition example_kernel :: "u8 \<Rightarrow> u32 \<Rightarrow> kernel" where
  "example_kernel svcByte flags =
     \<lparr>mem = (\<lambda>a. if a = 0xFF401000 - 0xB5 then svcByte
                 else if a = 0xFF401000 - 0xF0 then 0x03 else 0),
      currentProcess = 40,
      customFlags = (\<lambda>p. if p = 40 then flags else 0),
      debugOfProcess = (\<lambda>p. None),
      shouldSignalSyscallDebugEvent = (\<lambda>p i. False),
      onMemoryLayoutChangeEvent = (\<lambda>p. 100 + p),
      plgRunning = False,
      threadList = [10, 11],
      threads = example_thread,
      officialSVCs = (\<lambda>i. KernelCode (0xFFF00000 + 4 * of_nat i)),
      kernelVersion = 0x02250000,
      handleTable = Map.empty,
      refCount = (\<lambda>p. 1),
      hwUnmapResult = (\<lambda>p dst pages. if dst = 0 then 0xE0E01BF5 else 0),
      effects = []\<rparr>"

definition example_legacy :: legacy_unmap where
  "example_legacy h dst size' s =
     (0, s\<lparr>effects := effects s @ [HwInfo_UnmapProcessMemory 40 dst (drop_bit 12 size')]\<rparr>)"

definition example_rdecls :: rdecls where
  "example_rdecls =
     \<lparr>IPC_MakeHeader = (\<lambda>c n t. push_bit 16 c OR push_bit 6 (n AND 0x3F) OR (t AND 0x3F)),
      ERRF_ERRTYPE_LOGGED = 5,
      DIRECTIONAL_KEYS = 0xF00000F0,
      info_type = (\<lambda>info. info 0 AND 0xFF),
      info_procId = (\<lambda>info. info 3)\<rparr>"

definition example_rosalina :: "u32 \<Rightarrow> u32 \<Rightarrow> u32 \<Rightarrow> rosalina" where
  "example_rosalina w0 w1 w2 =
     \<lparr>cmdbuf = (\<lambda>k. if k = 0 then w0 else if k = 1 then w1 else if k = 2 then w2
                   else if k = 4 then 7 else 0),
      userString = (\<lambda>k. if k = 0 then 0x48 else if k = 1 then 0x69 else 0),
      menuShouldExit = False,
      isHidInitialized = True,
      menuRefCount = 0,
      ui = []\<rparr>"

section \<open>Properties of the SVC hooks\<close>

subsection \<open>Helper lemmas\<close>

lemma ucast_FE: "((ucast (b :: u8)) :: u32) = 0xFE \<longleftrightarrow> b = 0xFE"
proof
  assume "(ucast b :: u32) = 0xFE"
  then have "(ucast (ucast b :: u32) :: u8) = ucast (0xFE :: u32)" by simp
  then show "b = 0xFE" by (simp add: ucast_down_ucast_id is_down)
next
  assume "b = 0xFE"
  then show "(ucast b :: u32) = 0xFE" by simp
qed

lemma and_not_held: "(m :: u8) AND 0x20 = 0 \<Longrightarrow> m AND NOT 0x20 = m"
proof -
  assume a: "m AND 0x20 = 0"
  have "m = m AND (0x20 OR NOT 0x20)" by simp
  also have "\<dots> = (m AND 0x20) OR (m AND NOT 0x20)" by (simp only: bit.conj_disj_distrib)
  also have "\<dots> = m AND NOT 0x20" using a by simp
  finally show ?thesis by simp
qed

lemma and_not_held_num: "(m :: u8) AND 0x20 = 0 \<Longrightarrow> m AND - 33 = m"
  using and_not_held [of m] by simp

text \<open>The loop in closed form: exactly the listed threads of the process lose bit \<open>0x20\<close>.\<close>

lemma unlockThreads_eq:
  "unlockThreads cur nodes ts =
     (\<lambda>u. if u \<in> set nodes \<and> ownerProcess (ts u) = Some cur
          then (ts u)\<lparr>schedulingMask := schedulingMask (ts u) AND NOT 0x20\<rparr> else ts u)"
proof (induction nodes arbitrary: ts)
  case Nil
  then show ?case by simp
next
  case (Cons t nodes)
  show ?case
    unfolding unlockThreads.simps Cons.IH
    by (rule ext) (auto simp: unlockThread_def and_not_held_num and.assoc)
qed

lemma fst_ExitProcess: "fst (svcHook_ExitProcess d s) = officialSVCs s 3"
  by (simp add: svcHook_ExitProcess_def Let_def)

lemma svcHook_snd_other: "svcHook_svcId s pe \<noteq> 0x03 \<Longrightarrow> snd (svcHook d s pe) = s"
  by (simp add: svcHook_def Let_def)

lemma svcHook_exit: "svcHook_svcId s pe = 0x03 \<Longrightarrow> svcHook d s pe = svcHook_ExitProcess d s"
  by (simp add: svcHook_def Let_def)

lemma svcHook_fst_dep:
  assumes "svcHook_svcId s pe = svcHook_svcId s2 pe2" "officialSVCs s = officialSVCs s2"
    "(debugOfProcess s (currentProcess s) = None) = (debugOfProcess s2 (currentProcess s2) = None)"
  shows "fst (svcHook d s pe) = fst (svcHook d2 s2 pe2)"
  using assms by (simp add: svcHook_def Let_def if_distrib [of fst] fst_ExitProcess)

lemma svcHook_custom:
  "svcHook_svcId s pageEnd = 0x80 \<Longrightarrow> svcHook d s pageEnd = (Fn_CustomBackdoor, s)"
  "svcHook_svcId s pageEnd = 0x90 \<Longrightarrow> svcHook d s pageEnd = (Fn_convertVAToPA, s)"
  "svcHook_svcId s pageEnd = 0x91 \<Longrightarrow> svcHook d s pageEnd = (Fn_flushDataCacheRange, s)"
  "svcHook_svcId s pageEnd = 0x92 \<Longrightarrow> svcHook d s pageEnd = (Fn_flushEntireDataCache, s)"
  "svcHook_svcId s pageEnd = 0x93 \<Longrightarrow> svcHook d s pageEnd = (Fn_invalidateInstructionCacheRange, s)"
  "svcHook_svcId s pageEnd = 0x94 \<Longrightarrow> svcHook d s pageEnd = (Fn_invalidateEntireInstructionCache, s)"
  "svcHook_svcId s pageEnd = 0xA0 \<Longrightarrow> svcHook d s pageEnd = (Fn_MapProcessMemoryExWrapper, s)"
  "svcHook_svcId s pageEnd = 0xA1 \<Longrightarrow> svcHook d s pageEnd = (Fn_UnmapProcessMemoryEx, s)"
  "svcHook_svcId s pageEnd = 0xA2 \<Longrightarrow> svcHook d s pageEnd = (Fn_ControlMemoryEx, s)"
  "svcHook_svcId s pageEnd = 0xA3 \<Longrightarrow> svcHook d s pageEnd = (Fn_ControlMemoryUnsafeWrapper, s)"
  "svcHook_svcId s pageEnd = 0xB0 \<Longrightarrow> svcHook d s pageEnd = (Fn_ControlService, s)"
  "svcHook_svcId s pageEnd = 0xB1 \<Longrightarrow> svcHook d s pageEnd = (Fn_CopyHandleWrapper, s)"
  "svcHook_svcId s pageEnd = 0xB2 \<Longrightarrow> svcHook d s pageEnd = (Fn_TranslateHandleWrapper, s)"
  "svcHook_svcId s pageEnd = 0xB3 \<Longrightarrow> svcHook d s pageEnd = (Fn_ControlProcess, s)"
  by (simp_all add: svcHook_def Let_def)

text \<open>An identifier that matches no case label takes the \<open>default\<close> branch.\<close>

lemma svcHook_default:
  assumes "i = svcHook_svcId s pageEnd"
    and "i \<notin> {0x01, 0x03, 0x29, 0x2A, 0x2B, 0x2C, 0x2D, 0x2E, 0x32, 0x3C, 0x59, 0x5A, 0x7B, 0x7C}"
    and "i \<notin> set customSvcIds"
  shows "svcHook d s pageEnd = (if i \<le> 0x7D then officialSVCs s (unat i) else NULL, s)"
  using assms by (simp add: svcHook_def Let_def customSvcIds_def)

lemma above_range_no_label:
  assumes "(0x7D :: u32) < i"
  shows "i \<notin> {0x01, 0x03, 0x29, 0x2A, 0x2B, 0x2C, 0x2D, 0x2E, 0x32, 0x3C, 0x59, 0x5A, 0x7B, 0x7C}"
proof
  assume "i \<in> {0x01, 0x03, 0x29, 0x2A, 0x2B, 0x2C, 0x2D, 0x2E, 0x32, 0x3C, 0x59, 0x5A, 0x7B, 0x7C}"
  then consider "i = 0x01" | "i = 0x03" | "i = 0x29" | "i = 0x2A" | "i = 0x2B" | "i = 0x2C"
    | "i = 0x2D" | "i = 0x2E" | "i = 0x32" | "i = 0x3C" | "i = 0x59" | "i = 0x5A"
    | "i = 0x7B" | "i = 0x7C"
    by blast
  then show False using assms by cases simp_all
qed

lemma custom_isReplacement:
  assumes "svcHook_svcId s pageEnd \<in> set customSvcIds"
  shows "isReplacement (fst (svcHook d s pageEnd))"
proof -
  from assms consider "svcHook_svcId s pageEnd = 0x80" | "svcHook_svcId s pageEnd = 0x90"
    | "svcHook_svcId s pageEnd = 0x91" | "svcHook_svcId s pageEnd = 0x92"
    | "svcHook_svcId s pageEnd = 0x93" | "svcHook_svcId s pageEnd = 0x94"
    | "svcHook_svcId s pageEnd = 0xA0" | "svcHook_svcId s pageEnd = 0xA1"
    | "svcHook_svcId s pageEnd = 0xA2" | "svcHook_svcId s pageEnd = 0xA3"
    | "svcHook_svcId s pageEnd = 0xB0" | "svcHook_svcId s pageEnd = 0xB1"
    | "svcHook_svcId s pageEnd = 0xB2" | "svcHook_svcId s pageEnd = 0xB3"
    unfolding customSvcIds_def by auto
  then show ?thesis
    by cases (simp_all only: svcHook_custom fst_conv isReplacement_def fnptr.case)
qed

lemma exit_threads:
  assumes "svcHook_svcId s pe = 0x03"
    and "customFlags s (currentProcess s) AND SignalOnExit d \<noteq> 0"
  shows "threads (snd (svcHook d s pe)) = unlockThreads (currentProcess s) (threadList s) (threads s)"
    and "threadList (snd (svcHook d s pe)) = threadList s"
    and "currentProcess (snd (svcHook d s pe)) = currentProcess s"
    and "customFlags (snd (svcHook d s pe)) = customFlags s"
    and "mem (snd (svcHook d s pe)) = mem s"
    and "effects (snd (svcHook d s pe)) =
           effects s @ (if plgRunning s then [PLG_SignalEvent_EXIT] else [])
             @ [KRecursiveLock_Lock, KRecursiveLock_Unlock]"
  using assms by (simp_all add: svcHook_exit svcHook_ExitProcess_def Let_def)

lemma svcId_mem: "mem s2 = mem s \<Longrightarrow> svcHook_svcId s2 pe = svcHook_svcId s pe"
  by (simp add: svcHook_svcId_def read_u8_def read_u32_def Let_def)

text \<open>The fields of the example state, and the identifiers the three hooks read from it.\<close>

lemma ex_fields:
  "currentProcess (example_kernel b f) = 40"
  "customFlags (example_kernel b f) 40 = f"
  "plgRunning (example_kernel b f) = False"
  "threadList (example_kernel b f) = [10, 11]"
  "threads (example_kernel b f) = example_thread"
  "debugOfProcess (example_kernel b f) p = None"
  "officialSVCs (example_kernel b f) i = KernelCode (0xFFF00000 + 4 * of_nat i)"
  "kernelVersion (example_kernel b f) = 0x02250000"
  "handleTable (example_kernel b f) h = None"
  "effects (example_kernel b f) = []"
  "onMemoryLayoutChangeEvent (example_kernel b f) p = 100 + p"
  "hwUnmapResult (example_kernel b f) p dst pages = (if dst = 0 then 0xE0E01BF5 else 0)"
  by (simp_all add: example_kernel_def)

lemma ex_read:
  "read_u8 (example_kernel b f) (0xFF401000 - 0xB5) = b"
  "read_u32 (example_kernel b f) (0xFF401000 - 0x110 + 8 * 4) = 0x03"
  by (simp_all add: example_kernel_def read_u8_def read_u32_def)

lemma ex_id: "svcHook_svcId (example_kernel b f) 0xFF401000 = (if b = 0xFE then 0x03 else ucast b)"
  by (simp add: svcHook_svcId_def example_kernel_def read_u8_def read_u32_def Let_def ucast_FE)

lemma ex_decls:
  "SignalOnExit example_decls = 0x2"
  "SignalOnMemLayoutChanges example_decls = 0x1"
  "MemLayoutChanged example_decls = 0x10000"
  "CUR_PROCESS_HANDLE example_decls = 0xFFFF8001"
  "GET_VERSION_MINOR example_decls v = drop_bit 16 v AND 0xFF"
  by (simp_all add: example_decls_def)

subsection \<open>C1: what the resolver returns\<close>

text \<open>
  C1, as the code has it. For a call identifier in \<open>0 .. 0x7D\<close>, \<open>svcHook\<close> returns
  the entry of \<open>officialSVCs\<close> for that identifier or a replacement handler. For an
  identifier above \<open>0x7D\<close> it returns \<open>NULL\<close> and changes nothing, except for the
  fourteen custom identifiers \<open>0x80\<close>, \<open>0x90 .. 0x94\<close>, \<open>0xA0 .. 0xA3\<close> and
  \<open>0xB0 .. 0xB3\<close>, which resolve to replacement handlers.
\<close>

theorem svcHook_resolution:
  "(svcHook_svcId s pageEnd \<le> 0x7D \<longrightarrow>
      fst (svcHook d s pageEnd) = officialSVCs s (unat (svcHook_svcId s pageEnd))
      \<or> isReplacement (fst (svcHook d s pageEnd)))
   \<and> (0x7D < svcHook_svcId s pageEnd \<and> svcHook_svcId s pageEnd \<notin> set customSvcIds \<longrightarrow>
        svcHook d s pageEnd = (NULL, s))
   \<and> (svcHook_svcId s pageEnd \<in> set customSvcIds \<longrightarrow>
        0x7D < svcHook_svcId s pageEnd \<and> isReplacement (fst (svcHook d s pageEnd)))"
proof (intro conjI impI)
  assume "svcHook_svcId s pageEnd \<le> 0x7D"
  then show "fst (svcHook d s pageEnd) = officialSVCs s (unat (svcHook_svcId s pageEnd))
      \<or> isReplacement (fst (svcHook d s pageEnd))"
    by (simp add: svcHook_def svcHook_ExitProcess_def Let_def isReplacement_def)
next
  assume a: "0x7D < svcHook_svcId s pageEnd \<and> svcHook_svcId s pageEnd \<notin> set customSvcIds"
  then have "\<not> svcHook_svcId s pageEnd \<le> 0x7D" by (simp add: not_le)
  moreover from a have "svcHook_svcId s pageEnd
      \<notin> {0x01, 0x03, 0x29, 0x2A, 0x2B, 0x2C, 0x2D, 0x2E, 0x32, 0x3C, 0x59, 0x5A, 0x7B, 0x7C}"
    by (intro above_range_no_label) simp
  moreover from a have "svcHook_svcId s pageEnd \<notin> set customSvcIds" by simp
  ultimately show "svcHook d s pageEnd = (NULL, s)"
    using svcHook_default [OF refl, of s pageEnd d] by simp
next
  assume "svcHook_svcId s pageEnd \<in> set customSvcIds"
  then show "0x7D < svcHook_svcId s pageEnd"
    unfolding customSvcIds_def by auto
next
  assume "svcHook_svcId s pageEnd \<in> set customSvcIds"
  then show "isReplacement (fst (svcHook d s pageEnd))"
    by (rule custom_isReplacement)
qed

text \<open>
  The theorem at four frames of the example state: identifier \<open>0x05\<close> (an original
  entry), \<open>0x32\<close> (a replacement), \<open>0xFF\<close> (no handler) and \<open>0xA1\<close> (a custom
  identifier).
\<close>

theorem svcHook_resolution_witness:
  "svcHook_svcId (example_kernel 0x05 0) 0xFF401000 \<le> 0x7D
   \<and> (fst (svcHook example_decls (example_kernel 0x05 0) 0xFF401000)
         = officialSVCs (example_kernel 0x05 0) (unat (svcHook_svcId (example_kernel 0x05 0) 0xFF401000))
       \<or> isReplacement (fst (svcHook example_decls (example_kernel 0x05 0) 0xFF401000)))
   \<and> svcHook_svcId (example_kernel 0x32 0) 0xFF401000 \<le> 0x7D
   \<and> (fst (svcHook example_decls (example_kernel 0x32 0) 0xFF401000)
         = officialSVCs (example_kernel 0x32 0) (unat (svcHook_svcId (example_kernel 0x32 0) 0xFF401000))
       \<or> isReplacement (fst (svcHook example_decls (example_kernel 0x32 0) 0xFF401000)))
   \<and> 0x7D < svcHook_svcId (example_kernel 0xFF 0) 0xFF401000
   \<and> svcHook_svcId (example_kernel 0xFF 0) 0xFF401000 \<notin> set customSvcIds
   \<and> svcHook example_decls (example_kernel 0xFF 0) 0xFF401000 = (NULL, example_kernel 0xFF 0)
   \<and> svcHook_svcId (example_kernel 0xA1 0) 0xFF401000 \<in> set customSvcIds
   \<and> isReplacement (fst (svcHook example_decls (example_kernel 0xA1 0) 0xFF401000))"
proof -
  have h1: "svcHook_svcId (example_kernel 0x05 0) 0xFF401000 \<le> 0x7D"
    and h2: "svcHook_svcId (example_kernel 0x32 0) 0xFF401000 \<le> 0x7D"
    and h3: "0x7D < svcHook_svcId (example_kernel 0xFF 0) 0xFF401000
             \<and> svcHook_svcId (example_kernel 0xFF 0) 0xFF401000 \<notin> set customSvcIds"
    and h4: "svcHook_svcId (example_kernel 0xA1 0) 0xFF401000 \<in> set customSvcIds"
    by (simp_all add: ex_id customSvcIds_def)
  note T1 = svcHook_resolution [of "example_kernel 0x05 0" "0xFF401000" example_decls]
  note T2 = svcHook_resolution [of "example_kernel 0x32 0" "0xFF401000" example_decls]
  note T3 = svcHook_resolution [of "example_kernel 0xFF 0" "0xFF401000" example_decls]
  note T4 = svcHook_resolution [of "example_kernel 0xA1 0" "0xFF401000" example_decls]
  from T1 h1 have c1: "fst (svcHook example_decls (example_kernel 0x05 0) 0xFF401000)
         = officialSVCs (example_kernel 0x05 0) (unat (svcHook_svcId (example_kernel 0x05 0) 0xFF401000))
       \<or> isReplacement (fst (svcHook example_decls (example_kernel 0x05 0) 0xFF401000))"
    by blast
  from T2 h2 have c2: "fst (svcHook example_decls (example_kernel 0x32 0) 0xFF401000)
         = officialSVCs (example_kernel 0x32 0) (unat (svcHook_svcId (example_kernel 0x32 0) 0xFF401000))
       \<or> isReplacement (fst (svcHook example_decls (example_kernel 0x32 0) 0xFF401000))"
    by blast
  from T3 h3 have c3: "svcHook example_decls (example_kernel 0xFF 0) 0xFF401000 = (NULL, example_kernel 0xFF 0)"
    by blast
  from T4 h4 have c4: "isReplacement (fst (svcHook example_decls (example_kernel 0xA1 0) 0xFF401000))"
    by blast
  from h1 h2 h3 h4 c1 c2 c3 c4 show ?thesis by blast
qed

text \<open>
  C1 as stated fails: the identifier \<open>0x80\<close> lies above \<open>0x7D\<close>, and \<open>svcHook\<close>
  returns \<open>CustomBackdoor\<close> for it, not \<open>NULL\<close>.
\<close>

theorem svcHook_custom_id_counterexample:
  "(0x7D :: u32) < svcHook_svcId (example_kernel 0x80 0) 0xFF401000
   \<and> fst (svcHook example_decls (example_kernel 0x80 0) 0xFF401000) = Fn_CustomBackdoor
   \<and> fst (svcHook example_decls (example_kernel 0x80 0) 0xFF401000) \<noteq> NULL"
  by (simp add: svcHook_custom ex_id)

subsection \<open>C2: entry and return hooks read the same identifier\<close>

text \<open>
  C2. For every memory contents and every \<open>pageEnd\<close>, \<open>signalSvcEntry\<close> and
  \<open>signalSvcReturn\<close> work with the same call identifier: the byte at
  \<open>pageEnd - 0xB5\<close> when it is not \<open>0xFE\<close>, and the word in the saved \<open>r12\<close> slot
  at \<open>pageEnd - 0x110 + 8 * 4\<close> when it is. The debug event of the entry hook carries
  the identifier that the return hook derives.
\<close>

theorem svc_entry_return_same_id:
  "signalSvcEntry_svcId s pageEnd = signalSvcReturn_svcId s pageEnd
   \<and> (read_u8 s (pageEnd - 0xB5) \<noteq> 0xFE \<longrightarrow>
        signalSvcEntry_svcId s pageEnd = ucast (read_u8 s (pageEnd - 0xB5))
        \<and> signalSvcReturn_svcId s pageEnd = ucast (read_u8 s (pageEnd - 0xB5)))
   \<and> (read_u8 s (pageEnd - 0xB5) = 0xFE \<longrightarrow>
        signalSvcEntry_svcId s pageEnd = read_u32 s (pageEnd - 0x110 + 8 * 4)
        \<and> signalSvcReturn_svcId s pageEnd = read_u32 s (pageEnd - 0x110 + 8 * 4))
   \<and> effects (signalSvcEntry s pageEnd) =
        effects s @
        (if debugOfProcess s (currentProcess s) \<noteq> None
            \<and> shouldSignalSyscallDebugEvent s (currentProcess s) (signalSvcReturn_svcId s pageEnd)
         then [SignalDebugEvent_OUTPUT_STRING 0xFFFFFFFE (signalSvcReturn_svcId s pageEnd)]
         else [])"
proof -
  have e: "signalSvcEntry_svcId s pageEnd = signalSvcReturn_svcId s pageEnd"
    by (simp add: signalSvcEntry_svcId_def signalSvcReturn_svcId_def)
  have d: "read_u8 s (pageEnd - 0xB5) \<noteq> 0xFE \<longrightarrow>
        signalSvcReturn_svcId s pageEnd = ucast (read_u8 s (pageEnd - 0xB5))"
    by (simp add: signalSvcReturn_svcId_def Let_def ucast_FE)
  have x: "read_u8 s (pageEnd - 0xB5) = 0xFE \<longrightarrow>
        signalSvcReturn_svcId s pageEnd = read_u32 s (pageEnd - 0x110 + 8 * 4)"
    by (simp add: signalSvcReturn_svcId_def Let_def)
  have v: "effects (signalSvcEntry s pageEnd) =
        effects s @
        (if debugOfProcess s (currentProcess s) \<noteq> None
            \<and> shouldSignalSyscallDebugEvent s (currentProcess s) (signalSvcEntry_svcId s pageEnd)
         then [SignalDebugEvent_OUTPUT_STRING 0xFFFFFFFE (signalSvcEntry_svcId s pageEnd)]
         else [])"
    by (simp add: signalSvcEntry_def Let_def)
  from d x v show ?thesis unfolding e by simp
qed

text \<open>The theorem on the direct path (byte \<open>0x32\<close>) and on the escape path (byte \<open>0xFE\<close>).\<close>

theorem svc_entry_return_same_id_witness:
  "read_u8 (example_kernel 0x32 0) (0xFF401000 - 0xB5) \<noteq> 0xFE
   \<and> signalSvcEntry_svcId (example_kernel 0x32 0) 0xFF401000 = 0x32
   \<and> signalSvcReturn_svcId (example_kernel 0x32 0) 0xFF401000 = 0x32
   \<and> read_u8 (example_kernel 0xFE 0) (0xFF401000 - 0xB5) = 0xFE
   \<and> signalSvcEntry_svcId (example_kernel 0xFE 0) 0xFF401000 = 0x03
   \<and> signalSvcReturn_svcId (example_kernel 0xFE 0) 0xFF401000 = 0x03"
  using svc_entry_return_same_id [of "example_kernel 0x32 0" "0xFF401000"]
    svc_entry_return_same_id [of "example_kernel 0xFE 0" "0xFF401000"]
    ex_read [of "0x32" 0] ex_read [of "0xFE" 0]
  by simp

subsection \<open>C4: process termination releases held threads\<close>

text \<open>
  C4. When \<open>svcHook\<close> resolves call \<open>0x03\<close> for a process whose custom flags have
  \<open>SignalOnExit\<close>, then in the resulting state no thread of the global list that the
  process owns has bit \<open>0x20\<close> of its scheduling mask set; threads of other processes
  are unchanged; no owner and no other mask bit changes; running the loop again, or
  the whole hook again, leaves the thread store as it is; and the handler returned is
  the original entry 3.
\<close>

theorem exit_process_unlocks_threads:
  assumes "svcHook_svcId s pe = 0x03"
    and "customFlags s (currentProcess s) AND SignalOnExit d \<noteq> 0"
    and "s' = snd (svcHook d s pe)"
  shows "(\<forall>t \<in> set (threadList s). ownerProcess (threads s' t) = Some (currentProcess s)
            \<longrightarrow> schedulingMask (threads s' t) AND 0x20 = 0)
       \<and> (\<forall>t. ownerProcess (threads s t) \<noteq> Some (currentProcess s) \<longrightarrow> threads s' t = threads s t)
       \<and> (\<forall>t. ownerProcess (threads s' t) = ownerProcess (threads s t)
              \<and> schedulingMask (threads s' t) AND NOT 0x20 = schedulingMask (threads s t) AND NOT 0x20)
       \<and> unlockThreads (currentProcess s') (threadList s') (threads s') = threads s'
       \<and> threads (snd (svcHook d s' pe)) = threads s'
       \<and> fst (svcHook d s pe) = officialSVCs s 3"
proof -
  let ?cur = "currentProcess s"
  have T: "threads s' = unlockThreads ?cur (threadList s) (threads s)"
    and L: "threadList s' = threadList s" and C: "currentProcess s' = ?cur"
    and F: "customFlags s' = customFlags s" and M: "mem s' = mem s"
    using exit_threads(1-5) [OF assms(1,2)] assms(3) by simp_all
  have idem: "unlockThreads ?cur (threadList s) (threads s') = threads s'"
    unfolding T by (rule ext) (simp add: unlockThreads_eq and.assoc)
  have id': "svcHook_svcId s' pe = 0x03"
    using svcId_mem [OF M] assms(1) by simp
  have fl': "customFlags s' (currentProcess s') AND SignalOnExit d \<noteq> 0"
    using assms(2) F C by simp
  have again: "threads (snd (svcHook d s' pe)) = threads s'"
    using exit_threads(1) [OF id' fl'] idem L C by simp
  have a: "\<forall>t \<in> set (threadList s). ownerProcess (threads s' t) = Some ?cur
            \<longrightarrow> schedulingMask (threads s' t) AND 0x20 = 0"
    unfolding T by (simp add: unlockThreads_eq and.assoc)
  have b: "\<forall>t. ownerProcess (threads s t) \<noteq> Some ?cur \<longrightarrow> threads s' t = threads s t"
    unfolding T by (simp add: unlockThreads_eq)
  have c: "\<forall>t. ownerProcess (threads s' t) = ownerProcess (threads s t)
              \<and> schedulingMask (threads s' t) AND NOT 0x20 = schedulingMask (threads s t) AND NOT 0x20"
    unfolding T by (simp add: unlockThreads_eq and.assoc)
  have f: "fst (svcHook d s pe) = officialSVCs s 3"
    using assms(1) by (simp add: svcHook_exit fst_ExitProcess)
  from a b c idem again f L C show ?thesis by simp
qed

text \<open>
  The theorem on the example state with identifier 3 and \<open>SignalOnExit\<close> set: thread 10
  (owned by the current process, mask \<open>0x21\<close>) loses the bit, thread 11 (owned by
  process 41, mask \<open>0x20\<close>) keeps it.
\<close>

theorem exit_process_unlocks_threads_witness:
  "svcHook_svcId (example_kernel 0x03 2) 0xFF401000 = 0x03
   \<and> customFlags (example_kernel 0x03 2) (currentProcess (example_kernel 0x03 2))
        AND SignalOnExit example_decls \<noteq> 0
   \<and> schedulingMask (threads (snd (svcHook example_decls (example_kernel 0x03 2) 0xFF401000)) 10)
        AND 0x20 = 0
   \<and> threads (snd (svcHook example_decls (example_kernel 0x03 2) 0xFF401000)) 11
        = threads (example_kernel 0x03 2) 11
   \<and> schedulingMask (threads (example_kernel 0x03 2) 11) = 0x20
   \<and> threads (snd (svcHook example_decls
                 (snd (svcHook example_decls (example_kernel 0x03 2) 0xFF401000)) 0xFF401000))
        = threads (snd (svcHook example_decls (example_kernel 0x03 2) 0xFF401000))"
proof -
  have h1: "svcHook_svcId (example_kernel 0x03 2) 0xFF401000 = 0x03"
    by (simp add: ex_id)
  have h2: "customFlags (example_kernel 0x03 2) (currentProcess (example_kernel 0x03 2))
        AND SignalOnExit example_decls \<noteq> 0"
    by (simp add: ex_fields ex_decls)
  note T = exit_process_unlocks_threads [OF h1 h2 refl]
  from T have o: "ownerProcess (threads (snd (svcHook example_decls (example_kernel 0x03 2) 0xFF401000)) 10)
                    = Some 40"
    by (simp add: ex_fields example_thread_def)
  from T o have c1: "schedulingMask (threads (snd (svcHook example_decls (example_kernel 0x03 2) 0xFF401000)) 10)
        AND 0x20 = 0"
    by (simp add: ex_fields)
  from T have c2: "threads (snd (svcHook example_decls (example_kernel 0x03 2) 0xFF401000)) 11
        = threads (example_kernel 0x03 2) 11"
    by (simp add: ex_fields example_thread_def)
  have c3: "schedulingMask (threads (example_kernel 0x03 2) 11) = 0x20"
    by (simp add: ex_fields example_thread_def)
  from T have c4: "threads (snd (svcHook example_decls
                 (snd (svcHook example_decls (example_kernel 0x03 2) 0xFF401000)) 0xFF401000))
        = threads (snd (svcHook example_decls (example_kernel 0x03 2) 0xFF401000))"
    by blast
  from h1 h2 c1 c2 c3 c4 show ?thesis by blast
qed

subsection \<open>C5: the effects of the resolver\<close>

text \<open>
  C5, as the code has it. \<open>svcHook\<close> leaves the whole state unchanged for every call
  identifier other than \<open>0x03\<close>, and for \<open>0x03\<close> when the current process does not
  have \<open>SignalOnExit\<close>. The handler it returns is the same in any two states that
  agree on the call identifier, on the table of original handlers and on whether the
  current process has a debugger attached; the kernel version plays no part.
\<close>

theorem svcHook_frame:
  "(svcHook_svcId s pe \<noteq> 0x03 \<or> customFlags s (currentProcess s) AND SignalOnExit d = 0
      \<longrightarrow> snd (svcHook d s pe) = s)
   \<and> (svcHook_svcId s pe = svcHook_svcId s2 pe2 \<and> officialSVCs s = officialSVCs s2
        \<and> (debugOfProcess s (currentProcess s) = None) = (debugOfProcess s2 (currentProcess s2) = None)
      \<longrightarrow> fst (svcHook d s pe) = fst (svcHook d2 s2 pe2))"
proof -
  have a: "svcHook_svcId s pe \<noteq> 0x03 \<Longrightarrow> snd (svcHook d s pe) = s"
    by (rule svcHook_snd_other)
  have b: "customFlags s (currentProcess s) AND SignalOnExit d = 0 \<Longrightarrow> snd (svcHook d s pe) = s"
  proof (cases "svcHook_svcId s pe = 0x03")
    case True
    assume "customFlags s (currentProcess s) AND SignalOnExit d = 0"
    then show ?thesis using True by (simp add: svcHook_exit svcHook_ExitProcess_def Let_def)
  next
    case False
    then show ?thesis by (rule svcHook_snd_other)
  qed
  show ?thesis
  proof (intro conjI impI)
    assume "svcHook_svcId s pe \<noteq> 0x03 \<or> customFlags s (currentProcess s) AND SignalOnExit d = 0"
    then show "snd (svcHook d s pe) = s"
    proof
      assume "svcHook_svcId s pe \<noteq> 0x03"
      then show ?thesis by (rule a)
    next
      assume "customFlags s (currentProcess s) AND SignalOnExit d = 0"
      then show ?thesis by (rule b)
    qed
  next
    assume "svcHook_svcId s pe = svcHook_svcId s2 pe2 \<and> officialSVCs s = officialSVCs s2
        \<and> (debugOfProcess s (currentProcess s) = None) = (debugOfProcess s2 (currentProcess s2) = None)"
    then show "fst (svcHook d s pe) = fst (svcHook d2 s2 pe2)"
      by (intro svcHook_fst_dep) simp_all
  qed
qed

text \<open>
  The theorem on the example state: identifier \<open>0x32\<close> leaves the state unchanged, also
  with \<open>SignalOnExit\<close> set; identifier 3 without \<open>SignalOnExit\<close> leaves it unchanged;
  and identifier \<open>0x3C\<close> resolves to the same handler in two states that differ in their
  flags and in the kernel version.
\<close>

theorem svcHook_frame_witness:
  "svcHook_svcId (example_kernel 0x32 2) 0xFF401000 \<noteq> 0x03
   \<and> snd (svcHook example_decls (example_kernel 0x32 2) 0xFF401000) = example_kernel 0x32 2
   \<and> customFlags (example_kernel 0x03 0) (currentProcess (example_kernel 0x03 0))
        AND SignalOnExit example_decls = 0
   \<and> snd (svcHook example_decls (example_kernel 0x03 0) 0xFF401000) = example_kernel 0x03 0
   \<and> fst (svcHook example_decls (example_kernel 0x3C 0) 0xFF401000)
        = fst (svcHook example_decls ((example_kernel 0x3C 2)\<lparr>kernelVersion := 0x02240000\<rparr>) 0xFF401000)"
proof -
  have h1: "svcHook_svcId (example_kernel 0x32 2) 0xFF401000 \<noteq> 0x03"
    by (simp add: ex_id)
  have h2: "customFlags (example_kernel 0x03 0) (currentProcess (example_kernel 0x03 0))
        AND SignalOnExit example_decls = 0"
    by (simp add: ex_fields ex_decls)
  have m: "mem ((example_kernel 0x3C 2)\<lparr>kernelVersion := 0x02240000\<rparr>) = mem (example_kernel 0x3C 0)"
    by (simp add: example_kernel_def)
  have h3: "svcHook_svcId (example_kernel 0x3C 0) 0xFF401000
              = svcHook_svcId ((example_kernel 0x3C 2)\<lparr>kernelVersion := 0x02240000\<rparr>) 0xFF401000
            \<and> officialSVCs (example_kernel 0x3C 0)
              = officialSVCs ((example_kernel 0x3C 2)\<lparr>kernelVersion := 0x02240000\<rparr>)
            \<and> (debugOfProcess (example_kernel 0x3C 0) (currentProcess (example_kernel 0x3C 0)) = None)
              = (debugOfProcess ((example_kernel 0x3C 2)\<lparr>kernelVersion := 0x02240000\<rparr>)
                   (currentProcess ((example_kernel 0x3C 2)\<lparr>kernelVersion := 0x02240000\<rparr>)) = None)"
    using svcId_mem [OF m] by (simp add: example_kernel_def)
  from svcHook_frame [of "example_kernel 0x32 2" "0xFF401000" example_decls] h1
  have c1: "snd (svcHook example_decls (example_kernel 0x32 2) 0xFF401000) = example_kernel 0x32 2"
    by blast
  from svcHook_frame [of "example_kernel 0x03 0" "0xFF401000" example_decls] h2
  have c2: "snd (svcHook example_decls (example_kernel 0x03 0) 0xFF401000) = example_kernel 0x03 0"
    by blast
  from svcHook_frame [of "example_kernel 0x3C 0" "0xFF401000" example_decls
      "(example_kernel 0x3C 2)\<lparr>kernelVersion := 0x02240000\<rparr>" "0xFF401000" example_decls] h3
  have c3: "fst (svcHook example_decls (example_kernel 0x3C 0) 0xFF401000)
        = fst (svcHook example_decls ((example_kernel 0x3C 2)\<lparr>kernelVersion := 0x02240000\<rparr>) 0xFF401000)"
    by blast
  from h1 h2 c1 c2 c3 show ?thesis by blast
qed

text \<open>
  C5 as stated fails: resolving call \<open>0x03\<close> for a process with \<open>SignalOnExit\<close> changes
  the scheduling mask of thread 10 from \<open>0x21\<close> to \<open>0x01\<close> and takes the critical
  section lock.
\<close>

theorem svcHook_not_pure_counterexample:
  "schedulingMask (threads (example_kernel 0x03 2) 10) = 0x21
   \<and> schedulingMask (threads (snd (svcHook example_decls (example_kernel 0x03 2) 0xFF401000)) 10) = 0x01
   \<and> effects (example_kernel 0x03 2) = []
   \<and> effects (snd (svcHook example_decls (example_kernel 0x03 2) 0xFF401000))
        = [KRecursiveLock_Lock, KRecursiveLock_Unlock]
   \<and> snd (svcHook example_decls (example_kernel 0x03 2) 0xFF401000) \<noteq> example_kernel 0x03 2"
proof -
  have i: "svcHook_svcId (example_kernel 0x03 2) 0xFF401000 = 0x03"
    by (simp add: ex_id)
  have fl: "customFlags (example_kernel 0x03 2) (currentProcess (example_kernel 0x03 2))
        AND SignalOnExit example_decls \<noteq> 0"
    by (simp add: ex_fields ex_decls)
  have e: "effects (snd (svcHook example_decls (example_kernel 0x03 2) 0xFF401000))
        = [KRecursiveLock_Lock, KRecursiveLock_Unlock]"
    using exit_threads(6) [OF i fl] by (simp add: ex_fields)
  have th: "threads (snd (svcHook example_decls (example_kernel 0x03 2) 0xFF401000))
        = unlockThreads 40 [10, 11] example_thread"
    using exit_threads(1) [OF i fl] by (simp add: ex_fields)
  have t: "schedulingMask (threads (snd (svcHook example_decls (example_kernel 0x03 2) 0xFF401000)) 10) = 0x01"
    unfolding th by (simp add: unlockThreads_eq example_thread_def)
  have z: "effects (example_kernel 0x03 2) = []"
    and m: "schedulingMask (threads (example_kernel 0x03 2) 10) = 0x21"
    by (simp_all add: ex_fields example_thread_def)
  have n: "snd (svcHook example_decls (example_kernel 0x03 2) 0xFF401000) \<noteq> example_kernel 0x03 2"
  proof
    assume "snd (svcHook example_decls (example_kernel 0x03 2) 0xFF401000) = example_kernel 0x03 2"
    with e z show False by simp
  qed
  from m t z e n show ?thesis by blast
qed

subsection \<open>C6: the memory layout event on return\<close>

text \<open>
  C6. For every state and every frame (so whatever the call identifier), with
  \<open>flags\<close> the custom flags of the current process: if \<open>flags\<close> has both
  \<open>SignalOnMemLayoutChanges\<close> and \<open>MemLayoutChanged\<close>, \<open>signalSvcReturn\<close> stores
  \<open>flags\<close> with \<open>MemLayoutChanged\<close> cleared for that process (every other bit as it
  was, \<open>SignalOnMemLayoutChanges\<close> included when the two enumerators are different
  bits), touches the flags of no other process, and signals the layout change event of
  the process as its last action; otherwise the custom flags are unchanged and no event
  is signalled. The only other action is the debug event of the return hook (\<open>dbg\<close>).
\<close>

theorem signalSvcReturn_layout:
  assumes "cur = currentProcess s" and "flags = customFlags s cur"
    and "s' = signalSvcReturn d s pe"
    and "dbg = (if debugOfProcess s cur \<noteq> None
                   \<and> shouldSignalSyscallDebugEvent s cur (signalSvcReturn_svcId s pe)
                then [SignalDebugEvent_OUTPUT_STRING 0xFFFFFFFF (signalSvcReturn_svcId s pe)] else [])"
  shows "(flags AND SignalOnMemLayoutChanges d \<noteq> 0 \<and> flags AND MemLayoutChanged d \<noteq> 0 \<longrightarrow>
            customFlags s' = (customFlags s)(cur := flags AND NOT (MemLayoutChanged d))
          \<and> customFlags s' cur AND MemLayoutChanged d = 0
          \<and> customFlags s' cur AND NOT (MemLayoutChanged d) = flags AND NOT (MemLayoutChanged d)
          \<and> (SignalOnMemLayoutChanges d AND MemLayoutChanged d = 0 \<longrightarrow>
                customFlags s' cur AND SignalOnMemLayoutChanges d = flags AND SignalOnMemLayoutChanges d)
          \<and> effects s' = effects s @ dbg @ [SignalEvent (onMemoryLayoutChangeEvent s cur)])
       \<and> (\<not> (flags AND SignalOnMemLayoutChanges d \<noteq> 0 \<and> flags AND MemLayoutChanged d \<noteq> 0) \<longrightarrow>
            customFlags s' = customFlags s \<and> effects s' = effects s @ dbg)"
proof -
  have sm: "SignalOnMemLayoutChanges d AND MemLayoutChanged d = 0 \<Longrightarrow>
      (flags AND NOT (MemLayoutChanged d)) AND SignalOnMemLayoutChanges d = flags AND SignalOnMemLayoutChanges d"
  proof -
    assume z: "SignalOnMemLayoutChanges d AND MemLayoutChanged d = 0"
    have "SignalOnMemLayoutChanges d = SignalOnMemLayoutChanges d AND (MemLayoutChanged d OR NOT (MemLayoutChanged d))"
      by simp
    also have "\<dots> = (SignalOnMemLayoutChanges d AND MemLayoutChanged d)
                     OR (SignalOnMemLayoutChanges d AND NOT (MemLayoutChanged d))"
      by (simp only: bit.conj_disj_distrib)
    also have "\<dots> = NOT (MemLayoutChanged d) AND SignalOnMemLayoutChanges d"
      using z by (simp add: and.commute)
    finally have e: "NOT (MemLayoutChanged d) AND SignalOnMemLayoutChanges d = SignalOnMemLayoutChanges d"
      by simp
    show ?thesis by (simp add: and.assoc e)
  qed
  show ?thesis
    using assms sm by (simp add: signalSvcReturn_def Let_def and.assoc)
qed

text \<open>
  The theorem on the example state with identifier \<open>0x32\<close>: with both flags set
  (\<open>0x10001\<close>) the flags become \<open>0x1\<close> and event 140 is signalled; with only
  \<open>MemLayoutChanged\<close> set (\<open>0x10000\<close>) nothing happens.
\<close>

theorem signalSvcReturn_layout_witness:
  "customFlags (example_kernel 0x32 0x10001) (currentProcess (example_kernel 0x32 0x10001))
       AND SignalOnMemLayoutChanges example_decls \<noteq> 0
   \<and> customFlags (example_kernel 0x32 0x10001) (currentProcess (example_kernel 0x32 0x10001))
       AND MemLayoutChanged example_decls \<noteq> 0
   \<and> SignalOnMemLayoutChanges example_decls AND MemLayoutChanged example_decls = 0
   \<and> customFlags (signalSvcReturn example_decls (example_kernel 0x32 0x10001) 0xFF401000) 40 = 0x1
   \<and> effects (signalSvcReturn example_decls (example_kernel 0x32 0x10001) 0xFF401000) = [SignalEvent 140]
   \<and> customFlags (example_kernel 0x32 0x10000) (currentProcess (example_kernel 0x32 0x10000))
       AND SignalOnMemLayoutChanges example_decls = 0
   \<and> customFlags (signalSvcReturn example_decls (example_kernel 0x32 0x10000) 0xFF401000)
       = customFlags (example_kernel 0x32 0x10000)
   \<and> effects (signalSvcReturn example_decls (example_kernel 0x32 0x10000) 0xFF401000) = []"
  using signalSvcReturn_layout [OF refl refl refl refl, of "example_kernel 0x32 0x10001" example_decls "0xFF401000"]
    signalSvcReturn_layout [OF refl refl refl refl, of "example_kernel 0x32 0x10000" example_decls "0xFF401000"]
  by (simp add: ex_fields ex_decls)

section \<open>Properties of the extended unmap call\<close>

lemma resolve_Some:
  assumes "UnmapProcessMemoryEx_resolve d s processHandle = (Some p, s1)"
  shows "effects s1 = effects s" and "hwUnmapResult s1 = hwUnmapResult s"
  using assms
  by (auto simp: UnmapProcessMemoryEx_resolve_def KProcessHandleTable__ToKProcess_def
      KAutoObject__AddReference_def split: if_splits option.splits)

lemma resolve_None:
  assumes "fst (UnmapProcessMemoryEx_resolve d s processHandle) = None"
  shows "UnmapProcessMemoryEx_resolve d s processHandle = (None, s)"
  using assms
  by (auto simp: UnmapProcessMemoryEx_resolve_def KProcessHandleTable__ToKProcess_def
      split: if_splits option.splits)

lemma ex_minor:
  "GET_VERSION_MINOR example_decls 0x02250000 = 37"
  "GET_VERSION_MINOR example_decls 0x02240000 = 36"
  by (simp_all add: ex_decls)

lemma ex_resolve:
  "UnmapProcessMemoryEx_resolve example_decls (example_kernel b f) 0xFFFF8001
     = (Some 40, KAutoObject__AddReference 40 (example_kernel b f))"
  "UnmapProcessMemoryEx_resolve example_decls (example_kernel b f) 0x1234 = (None, example_kernel b f)"
  by (simp_all add: UnmapProcessMemoryEx_resolve_def KProcessHandleTable__ToKProcess_def
      ex_decls ex_fields)

subsection \<open>C3: below the version gate the legacy call is made\<close>

text \<open>
  C3. When the minor kernel version is below 37, \<open>UnmapProcessMemoryEx\<close> on a handle, a
  destination and a size gives the result and the state that the legacy
  \<open>UnmapProcessMemory\<close> gives on the same three arguments and the same state. This
  holds for every size, so in particular for the sizes within the maximum of the legacy
  call, and for every legacy function.
\<close>

theorem unmap_legacy_delegation:
  assumes "GET_VERSION_MINOR d (kernelVersion s) < 37"
  shows "UnmapProcessMemoryEx d UnmapProcessMemory processHandle dst size' s
           = UnmapProcessMemory processHandle dst size' s"
  using assms by (simp add: UnmapProcessMemoryEx_def)

text \<open>The theorem on the example state with kernel version 2.36.\<close>

theorem unmap_legacy_delegation_witness:
  "GET_VERSION_MINOR example_decls (kernelVersion ((example_kernel 0 0)\<lparr>kernelVersion := 0x02240000\<rparr>)) < 37
   \<and> UnmapProcessMemoryEx example_decls example_legacy 0xFFFF8001 0x100000 0x1000
        ((example_kernel 0 0)\<lparr>kernelVersion := 0x02240000\<rparr>)
      = example_legacy 0xFFFF8001 0x100000 0x1000 ((example_kernel 0 0)\<lparr>kernelVersion := 0x02240000\<rparr>)"
proof -
  have h: "GET_VERSION_MINOR example_decls (kernelVersion ((example_kernel 0 0)\<lparr>kernelVersion := 0x02240000\<rparr>)) < 37"
    by (simp add: ex_minor ex_fields)
  from h unmap_legacy_delegation [OF h] show ?thesis by blast
qed

subsection \<open>C7: cache maintenance after the unmap\<close>

text \<open>
  C7, as the code has it. On every execution of \<open>UnmapProcessMemoryEx\<close> that reaches
  the page-table unmap itself (minor kernel version at least 37 and a handle that
  resolves to a process \<open>p\<close>), the actions are, in this order and last before the
  return: the unmap of \<open>size >> 12\<close> pages, the invalidation of the instruction cache,
  the flush of the data cache. This holds whatever the result of the unmap, which is
  the result of the call.
\<close>

theorem unmap_cache_maintenance:
  assumes "\<not> GET_VERSION_MINOR d (kernelVersion s) < 37"
    and "UnmapProcessMemoryEx_resolve d s processHandle = (Some p, s1)"
  shows "effects (snd (UnmapProcessMemoryEx d UnmapProcessMemory processHandle dst size' s))
           = effects s @ [HwInfo_UnmapProcessMemory p dst (drop_bit 12 size'),
                          InvalidateEntireInstructionCache, FlushEntireDataCache]
        \<and> fst (UnmapProcessMemoryEx d UnmapProcessMemory processHandle dst size' s)
           = hwUnmapResult s p dst (drop_bit 12 size')"
  using assms resolve_Some [OF assms(2)]
  by (simp add: UnmapProcessMemoryEx_def KProcessHwInfo__UnmapProcessMemory_def
      DecrementReferenceCount_def invalidateEntireInstructionCache_def flushEntireDataCache_def)

text \<open>
  The theorem on the example state (kernel version 2.37) with the handle of the current
  process: once with an unmap that succeeds, once with one that fails (\<open>dst = 0\<close>).
\<close>

theorem unmap_cache_maintenance_witness:
  "\<not> GET_VERSION_MINOR example_decls (kernelVersion (example_kernel 0 0)) < 37
   \<and> UnmapProcessMemoryEx_resolve example_decls (example_kernel 0 0) 0xFFFF8001
       = (Some 40, KAutoObject__AddReference 40 (example_kernel 0 0))
   \<and> effects (snd (UnmapProcessMemoryEx example_decls example_legacy 0xFFFF8001 0x100000 0x2000 (example_kernel 0 0)))
       = [HwInfo_UnmapProcessMemory 40 0x100000 2, InvalidateEntireInstructionCache, FlushEntireDataCache]
   \<and> fst (UnmapProcessMemoryEx example_decls example_legacy 0xFFFF8001 0x100000 0x2000 (example_kernel 0 0)) = 0
   \<and> effects (snd (UnmapProcessMemoryEx example_decls example_legacy 0xFFFF8001 0 0x2000 (example_kernel 0 0)))
       = [HwInfo_UnmapProcessMemory 40 0 2, InvalidateEntireInstructionCache, FlushEntireDataCache]
   \<and> fst (UnmapProcessMemoryEx example_decls example_legacy 0xFFFF8001 0 0x2000 (example_kernel 0 0)) = 0xE0E01BF5"
proof -
  have h1: "\<not> GET_VERSION_MINOR example_decls (kernelVersion (example_kernel 0 0)) < 37"
    by (simp add: ex_minor ex_fields)
  note h2 = ex_resolve(1) [of 0 0]
  note T1 = unmap_cache_maintenance [OF h1 h2, of example_legacy "0x100000" "0x2000"]
  note T2 = unmap_cache_maintenance [OF h1 h2, of example_legacy 0 "0x2000"]
  have p: "drop_bit 12 (0x2000 :: u32) = 2" by simp
  from h1 h2 T1 T2 show ?thesis by (simp add: ex_fields p)
qed

text \<open>
  C7 as stated fails on the two other paths. With kernel version 2.37 and a handle that
  names no process, the call returns without any cache maintenance. With kernel version
  2.36 the call is the legacy call and nothing more: with a legacy function that unmaps
  and does no cache maintenance, none follows.
\<close>

theorem unmap_no_cache_maintenance_counterexample:
  "fst (UnmapProcessMemoryEx example_decls example_legacy 0x1234 0x100000 0x1000 (example_kernel 0 0)) = 0xD8E007F7
   \<and> effects (snd (UnmapProcessMemoryEx example_decls example_legacy 0x1234 0x100000 0x1000 (example_kernel 0 0))) = []
   \<and> effects (snd (UnmapProcessMemoryEx example_decls example_legacy 0xFFFF8001 0x100000 0x1000
                     ((example_kernel 0 0)\<lparr>kernelVersion := 0x02240000\<rparr>)))
       = [HwInfo_UnmapProcessMemory 40 0x100000 1]"
proof -
  have a: "UnmapProcessMemoryEx example_decls example_legacy 0x1234 0x100000 0x1000 (example_kernel 0 0)
             = (0xD8E007F7, example_kernel 0 0)"
    by (simp add: UnmapProcessMemoryEx_def ex_minor ex_fields ex_resolve)
  have b: "UnmapProcessMemoryEx example_decls example_legacy 0xFFFF8001 0x100000 0x1000
             ((example_kernel 0 0)\<lparr>kernelVersion := 0x02240000\<rparr>)
           = example_legacy 0xFFFF8001 0x100000 0x1000 ((example_kernel 0 0)\<lparr>kernelVersion := 0x02240000\<rparr>)"
    by (simp add: UnmapProcessMemoryEx_def ex_minor ex_fields)
  have p: "drop_bit 12 (0x1000 :: u32) = 1" by simp
  show ?thesis unfolding a b by (simp add: ex_fields example_legacy_def p)
qed

subsection \<open>C8: a handle that names no process\<close>

text \<open>
  C8. With a minor kernel version of at least 37, when the resolution of the handle
  yields no process, \<open>UnmapProcessMemoryEx\<close> returns \<open>0xD8E007F7\<close> and the state is
  the state before the call: no unmap was made, and every reference count and the
  handle table are as they were.
\<close>

theorem unmap_invalid_handle:
  assumes "\<not> GET_VERSION_MINOR d (kernelVersion s) < 37"
    and "fst (UnmapProcessMemoryEx_resolve d s processHandle) = None"
  shows "UnmapProcessMemoryEx d UnmapProcessMemory processHandle dst size' s = (0xD8E007F7, s)
       \<and> refCount (snd (UnmapProcessMemoryEx d UnmapProcessMemory processHandle dst size' s)) = refCount s
       \<and> handleTable (snd (UnmapProcessMemoryEx d UnmapProcessMemory processHandle dst size' s)) = handleTable s
       \<and> effects (snd (UnmapProcessMemoryEx d UnmapProcessMemory processHandle dst size' s)) = effects s"
  using assms(1) resolve_None [OF assms(2)] by (simp add: UnmapProcessMemoryEx_def)

text \<open>The theorem on the example state, whose handle table is empty, with handle \<open>0x1234\<close>.\<close>

theorem unmap_invalid_handle_witness:
  "\<not> GET_VERSION_MINOR example_decls (kernelVersion (example_kernel 0 0)) < 37
   \<and> fst (UnmapProcessMemoryEx_resolve example_decls (example_kernel 0 0) 0x1234) = None
   \<and> UnmapProcessMemoryEx example_decls example_legacy 0x1234 0x100000 0x1000 (example_kernel 0 0)
       = (0xD8E007F7, example_kernel 0 0)"
proof -
  have h1: "\<not> GET_VERSION_MINOR example_decls (kernelVersion (example_kernel 0 0)) < 37"
    by (simp add: ex_minor ex_fields)
  have h2: "fst (UnmapProcessMemoryEx_resolve example_decls (example_kernel 0 0) 0x1234) = None"
    by (simp add: ex_resolve)
  from h1 h2 unmap_invalid_handle [OF h1 h2] show ?thesis by blast
qed

section \<open>Properties of the fatal error service\<close>

lemma loop_flags:
  "isHidInitialized s2 = isHidInitialized s \<Longrightarrow> menuShouldExit s2 = menuShouldExit s \<Longrightarrow>
   waitInputWithTimeout_loop r s2 msec n scans = waitInputWithTimeout_loop r s msec n scans"
  by (induction scans arbitrary: n) (auto simp: Let_def)

lemma waitInput_flags:
  "isHidInitialized s2 = isHidInitialized s \<Longrightarrow> menuShouldExit s2 = menuShouldExit s \<Longrightarrow>
   waitInput r s2 scans = waitInput r s scans"
  unfolding waitInput_def waitInputWithTimeout_def by (rule loop_flags)

text \<open>The wait ends as soon as one scan reports a key.\<close>

lemma loop_key:
  "\<exists>x \<in> set scans. fst x OR (snd x AND DIRECTIONAL_KEYS r) \<noteq> 0 \<Longrightarrow>
   waitInputWithTimeout_loop r s msec n scans \<noteq> None"
proof (induction scans arbitrary: n)
  case Nil
  then show ?case by simp
next
  case (Cons x scans)
  obtain down rep where x: "x = (down, rep)" by (cases x)
  show ?case
  proof (cases "down OR (rep AND DIRECTIONAL_KEYS r) = 0")
    case True
    with Cons.prems x have "\<exists>y \<in> set scans. fst y OR (snd y AND DIRECTIONAL_KEYS r) \<noteq> 0"
      by simp
    then have "waitInputWithTimeout_loop r s msec (n + 1) scans \<noteq> None"
      by (rule Cons.IH)
    then show ?thesis using x True by (simp add: Let_def convertHidKeys_def)
  next
    case False
    then show ?thesis using x by (simp add: Let_def convertHidKeys_def)
  qed
qed

lemma loop_nohid:
  "\<not> isHidInitialized s \<or> menuShouldExit s \<Longrightarrow> waitInputWithTimeout_loop r s msec n scans = Some 0"
  by (cases scans) auto

lemma waitInput_returns:
  "\<not> isHidInitialized s \<or> menuShouldExit s
     \<or> (\<exists>x \<in> set scans. fst x OR (snd x AND DIRECTIONAL_KEYS r) \<noteq> 0)
   \<Longrightarrow> waitInput r s scans \<noteq> None"
  unfolding waitInput_def waitInputWithTimeout_def
  using loop_key [of scans r s "- 1" 0] loop_nohid [of s r "- 1" 0 scans] by auto

lemma display_flags:
  "isHidInitialized (ERRF_DisplayError r info (emit es (menuEnter a s))) = isHidInitialized s"
  "menuShouldExit (ERRF_DisplayError r info (emit es (menuEnter a s))) = menuShouldExit s"
  by (simp_all add: ERRF_DisplayError_def emit_def menuEnter_def Let_def)

lemma leave_cmdbuf: "cmdbuf (menuLeave (ERRF_DisplayError r info (emit es (menuEnter a s)))) = cmdbuf s"
  by (simp add: menuLeave_def ERRF_DisplayError_def emit_def menuEnter_def Let_def)

lemma Throw_shown:
  assumes "\<not> menuShouldExit s \<and> (info_type r (\<lambda>k. cmdbuf s (1 + k)) \<noteq> ERRF_ERRTYPE_LOGGED r
             \<or> info_procId r (\<lambda>k. cmdbuf s (1 + k)) = 0)"
  shows "ERRF_Throw r a scans s =
     (case waitInput r s scans of None \<Rightarrow> None
      | Some keys \<Rightarrow> Some ((menuLeave (ERRF_DisplayError r (\<lambda>k. cmdbuf s (1 + k))
                  (emit [Draw_ClearFramebuffer, Draw_FlushFramebuffer] (menuEnter a s))))
                  \<lparr>cmdbuf := (cmdbuf s)(0 := IPC_MakeHeader r 1 1 0, 1 := 0)\<rparr>))"
proof -
  have w: "waitInput r (ERRF_DisplayError r (\<lambda>k. cmdbuf s (1 + k))
             (emit [Draw_ClearFramebuffer, Draw_FlushFramebuffer] (menuEnter a s))) scans
           = waitInput r s scans"
    by (rule waitInput_flags) (simp_all add: display_flags)
  show ?thesis
    using assms unfolding ERRF_Throw_def Let_def w
    by (simp add: leave_cmdbuf split: option.splits)
qed

lemma Throw_hidden:
  assumes "\<not> (\<not> menuShouldExit s \<and> (info_type r (\<lambda>k. cmdbuf s (1 + k)) \<noteq> ERRF_ERRTYPE_LOGGED r
             \<or> info_procId r (\<lambda>k. cmdbuf s (1 + k)) = 0))"
  shows "ERRF_Throw r a scans s = Some (s\<lparr>cmdbuf := (cmdbuf s)(0 := IPC_MakeHeader r 1 1 0, 1 := 0)\<rparr>)"
  unfolding ERRF_Throw_def Let_def by (simp only: if_not_P [OF assms] option.case)

lemma exr_fields:
  "cmdbuf (example_rosalina w0 w1 w2) 0 = w0"
  "cmdbuf (example_rosalina w0 w1 w2) 1 = w1"
  "cmdbuf (example_rosalina w0 w1 w2) (Suc 0) = w1"
  "cmdbuf (example_rosalina w0 w1 w2) 2 = w2"
  "cmdbuf (example_rosalina w0 w1 w2) 4 = 7"
  "menuShouldExit (example_rosalina w0 w1 w2) = False"
  "isHidInitialized (example_rosalina w0 w1 w2) = True"
  "ui (example_rosalina w0 w1 w2) = []"
  by (simp_all add: example_rosalina_def)

lemma exr_decls:
  "IPC_MakeHeader example_rdecls 2 1 2 = 0x00020042"
  "IPC_MakeHeader example_rdecls 0 1 0 = 0x00000040"
  "IPC_MakeHeader example_rdecls 1 1 0 = 0x00010040"
  "ERRF_ERRTYPE_LOGGED example_rdecls = 5"
  "DIRECTIONAL_KEYS example_rdecls = 0xF00000F0"
  "info_type example_rdecls info = info 0 AND 0xFF"
  "info_procId example_rdecls info = info 3"
  by (simp_all add: example_rdecls_def)

subsection \<open>C9: a malformed SetUserString request\<close>

text \<open>
  C9. For a request of command 2 whose first word is not \<open>IPC_MakeHeader(2, 1, 2)\<close>, or
  whose static buffer descriptor \<open>cmdbuf[2]\<close> does not satisfy
  \<open>(cmdbuf[2] & 0x3C0F) == 2\<close>, \<open>ERRF_HandleCommands\<close> returns; it writes the header
  \<open>IPC_MakeHeader(0, 1, 0)\<close> and the error code \<open>0xD9001830\<close> into the reply and
  changes nothing else: every byte of the stored user string is as it was, and nothing
  is drawn.
\<close>

theorem set_user_string_malformed:
  assumes "drop_bit 16 (cmdbuf s 0) = 2"
    and "cmdbuf s 0 \<noteq> IPC_MakeHeader r 2 1 2 \<or> cmdbuf s 2 AND 0x3C0F \<noteq> 2"
  shows "ERRF_HandleCommands r allocOk scans s
           = Some (s\<lparr>cmdbuf := (cmdbuf s)(0 := IPC_MakeHeader r 0 1 0, 1 := 0xD9001830)\<rparr>)
       \<and> (\<exists>s'. ERRF_HandleCommands r allocOk scans s = Some s'
              \<and> cmdbuf s' 0 = IPC_MakeHeader r 0 1 0 \<and> cmdbuf s' 1 = 0xD9001830
              \<and> userString s' = userString s \<and> ui s' = ui s)"
  using assms by (simp add: ERRF_HandleCommands_def ERRF_SetUserString_def Let_def)

text \<open>
  The theorem on two requests: one with the header \<open>0x00020041\<close> (wrong parameter
  counts), one with the right header \<open>0x00020042\<close> and a descriptor word 0.
\<close>

theorem set_user_string_malformed_witness:
  "drop_bit 16 (cmdbuf (example_rosalina 0x00020041 3 2) 0) = 2
   \<and> cmdbuf (example_rosalina 0x00020041 3 2) 0 \<noteq> IPC_MakeHeader example_rdecls 2 1 2
   \<and> ERRF_HandleCommands example_rdecls True [] (example_rosalina 0x00020041 3 2)
       = Some ((example_rosalina 0x00020041 3 2)
                \<lparr>cmdbuf := (cmdbuf (example_rosalina 0x00020041 3 2))(0 := 0x40, 1 := 0xD9001830)\<rparr>)
   \<and> drop_bit 16 (cmdbuf (example_rosalina 0x00020042 3 0) 0) = 2
   \<and> cmdbuf (example_rosalina 0x00020042 3 0) 2 AND 0x3C0F \<noteq> 2
   \<and> ERRF_HandleCommands example_rdecls True [] (example_rosalina 0x00020042 3 0)
       = Some ((example_rosalina 0x00020042 3 0)
                \<lparr>cmdbuf := (cmdbuf (example_rosalina 0x00020042 3 0))(0 := 0x40, 1 := 0xD9001830)\<rparr>)"
proof -
  have a1: "drop_bit 16 (cmdbuf (example_rosalina 0x00020041 3 2) 0) = 2"
    and a2: "cmdbuf (example_rosalina 0x00020041 3 2) 0 \<noteq> IPC_MakeHeader example_rdecls 2 1 2"
    and b1: "drop_bit 16 (cmdbuf (example_rosalina 0x00020042 3 0) 0) = 2"
    and b2: "cmdbuf (example_rosalina 0x00020042 3 0) 2 AND 0x3C0F \<noteq> 2"
    by (simp_all add: exr_fields exr_decls)
  note T1 = set_user_string_malformed [OF a1 disjI1 [OF a2], of True "[]"]
  note T2 = set_user_string_malformed [OF b1 disjI2 [OF b2], of example_rdecls True "[]"]
  from a1 a2 b1 b2 T1 T2 show ?thesis by (simp add: exr_decls)
qed

subsection \<open>C10: the reply to a Throw request\<close>

text \<open>
  C10. For a request of command 1, with \<open>shown\<close> the condition that the menu is not
  exiting and that the error type is not \<open>LOGGED\<close> or the process id is 0: whenever
  \<open>ERRF_HandleCommands\<close> returns, the reply is the header \<open>IPC_MakeHeader(1, 1, 0)\<close>
  and the status word 0. When \<open>shown\<close> is false it returns at once with that reply and
  nothing else changed: nothing is drawn and no input is awaited. When \<open>shown\<close> is
  true the error is drawn and the input awaited: the call returns, with the same reply,
  exactly when the wait for input returns, which it does as soon as a scan reports a
  key (or when the input service is not initialised).
\<close>

theorem throw_always_replies:
  assumes "drop_bit 16 (cmdbuf s 0) = 1"
    and "info = (\<lambda>k. cmdbuf s (1 + k))"
    and "shown = (\<not> menuShouldExit s
                   \<and> (info_type r info \<noteq> ERRF_ERRTYPE_LOGGED r \<or> info_procId r info = 0))"
    and "reply = (cmdbuf s)(0 := IPC_MakeHeader r 1 1 0, 1 := 0)"
  shows "(\<forall>s'. ERRF_HandleCommands r allocOk scans s = Some s'
            \<longrightarrow> cmdbuf s' 0 = IPC_MakeHeader r 1 1 0 \<and> cmdbuf s' 1 = 0)
       \<and> (\<not> shown \<longrightarrow> ERRF_HandleCommands r allocOk scans s = Some (s\<lparr>cmdbuf := reply\<rparr>))
       \<and> (shown \<and> waitInput r s scans = None \<longrightarrow> ERRF_HandleCommands r allocOk scans s = None)
       \<and> (shown \<and> waitInput r s scans \<noteq> None \<longrightarrow>
            ERRF_HandleCommands r allocOk scans s =
              Some ((menuLeave (ERRF_DisplayError r info
                      (emit [Draw_ClearFramebuffer, Draw_FlushFramebuffer] (menuEnter allocOk s))))
                    \<lparr>cmdbuf := reply\<rparr>))
       \<and> (shown \<and> (\<not> isHidInitialized s
                     \<or> (\<exists>x \<in> set scans. fst x OR (snd x AND DIRECTIONAL_KEYS r) \<noteq> 0))
            \<longrightarrow> ERRF_HandleCommands r allocOk scans s \<noteq> None)"
proof -
  have H: "ERRF_HandleCommands r allocOk scans s = ERRF_Throw r allocOk scans s"
    using assms(1) by (simp add: ERRF_HandleCommands_def)
  have hid: "\<not> shown \<Longrightarrow> ERRF_Throw r allocOk scans s = Some (s\<lparr>cmdbuf := reply\<rparr>)"
    unfolding assms(2,3,4) by (rule Throw_hidden)
  have sh: "shown \<Longrightarrow> ERRF_Throw r allocOk scans s =
     (case waitInput r s scans of None \<Rightarrow> None
      | Some keys \<Rightarrow> Some ((menuLeave (ERRF_DisplayError r info
                  (emit [Draw_ClearFramebuffer, Draw_FlushFramebuffer] (menuEnter allocOk s))))
                  \<lparr>cmdbuf := reply\<rparr>))"
    unfolding assms(2,3,4) by (rule Throw_shown)
  have c1: "\<forall>s'. ERRF_Throw r allocOk scans s = Some s'
            \<longrightarrow> cmdbuf s' 0 = IPC_MakeHeader r 1 1 0 \<and> cmdbuf s' 1 = 0"
  proof (cases shown)
    case True
    show ?thesis unfolding sh [OF True] by (simp add: assms(4) split: option.splits)
  next
    case False
    show ?thesis unfolding hid [OF False] by (simp add: assms(4))
  qed
  have c3: "shown \<and> waitInput r s scans = None \<longrightarrow> ERRF_Throw r allocOk scans s = None"
    using sh by simp
  have c4: "shown \<and> waitInput r s scans \<noteq> None \<longrightarrow>
            ERRF_Throw r allocOk scans s =
              Some ((menuLeave (ERRF_DisplayError r info
                      (emit [Draw_ClearFramebuffer, Draw_FlushFramebuffer] (menuEnter allocOk s))))
                    \<lparr>cmdbuf := reply\<rparr>)"
    using sh by (cases "waitInput r s scans") simp_all
  have c5: "shown \<and> (\<not> isHidInitialized s
                     \<or> (\<exists>x \<in> set scans. fst x OR (snd x AND DIRECTIONAL_KEYS r) \<noteq> 0))
            \<longrightarrow> ERRF_Throw r allocOk scans s \<noteq> None"
  proof
    assume a: "shown \<and> (\<not> isHidInitialized s
                     \<or> (\<exists>x \<in> set scans. fst x OR (snd x AND DIRECTIONAL_KEYS r) \<noteq> 0))"
    then have "waitInput r s scans \<noteq> None" by (intro waitInput_returns) blast
    with a c4 show "ERRF_Throw r allocOk scans s \<noteq> None" by simp
  qed
  from c1 hid c3 c4 c5 show ?thesis unfolding H by simp
qed

text \<open>
  The theorem on two requests. The first has type \<open>LOGGED\<close> and process id 7: the
  display is suppressed and the reply is written at once. The second has type 0: the
  error is drawn, and the call returns with the reply when the second scan reports a
  key; with no scan reporting a key the call is still waiting.
\<close>

theorem throw_always_replies_witness:
  "drop_bit 16 (cmdbuf (example_rosalina 0x00010800 5 0) 0) = 1
   \<and> info_type example_rdecls (\<lambda>k. cmdbuf (example_rosalina 0x00010800 5 0) (1 + k))
       = ERRF_ERRTYPE_LOGGED example_rdecls
   \<and> info_procId example_rdecls (\<lambda>k. cmdbuf (example_rosalina 0x00010800 5 0) (1 + k)) = 7
   \<and> ERRF_HandleCommands example_rdecls True [] (example_rosalina 0x00010800 5 0)
       = Some ((example_rosalina 0x00010800 5 0)
                \<lparr>cmdbuf := (cmdbuf (example_rosalina 0x00010800 5 0))(0 := 0x00010040, 1 := 0)\<rparr>)
   \<and> drop_bit 16 (cmdbuf (example_rosalina 0x00010800 0 0) 0) = 1
   \<and> \<not> menuShouldExit (example_rosalina 0x00010800 0 0)
   \<and> info_type example_rdecls (\<lambda>k. cmdbuf (example_rosalina 0x00010800 0 0) (1 + k))
       \<noteq> ERRF_ERRTYPE_LOGGED example_rdecls
   \<and> waitInput example_rdecls (example_rosalina 0x00010800 0 0) [(0, 0), (1, 0)] \<noteq> None
   \<and> ERRF_HandleCommands example_rdecls True [(0, 0), (1, 0)] (example_rosalina 0x00010800 0 0)
       = Some ((menuLeave (ERRF_DisplayError example_rdecls (\<lambda>k. cmdbuf (example_rosalina 0x00010800 0 0) (1 + k))
                  (emit [Draw_ClearFramebuffer, Draw_FlushFramebuffer]
                     (menuEnter True (example_rosalina 0x00010800 0 0)))))
                \<lparr>cmdbuf := (cmdbuf (example_rosalina 0x00010800 0 0))(0 := 0x00010040, 1 := 0)\<rparr>)
   \<and> waitInput example_rdecls (example_rosalina 0x00010800 0 0) [(0, 0)] = None
   \<and> ERRF_HandleCommands example_rdecls True [(0, 0)] (example_rosalina 0x00010800 0 0) = None"
proof -
  have a: "drop_bit 16 (cmdbuf (example_rosalina 0x00010800 5 0) 0) = 1"
    and b: "drop_bit 16 (cmdbuf (example_rosalina 0x00010800 0 0) 0) = 1"
    by (simp_all add: exr_fields)
  have a1: "info_type example_rdecls (\<lambda>k. cmdbuf (example_rosalina 0x00010800 5 0) (1 + k))
       = ERRF_ERRTYPE_LOGGED example_rdecls"
    and a2: "info_procId example_rdecls (\<lambda>k. cmdbuf (example_rosalina 0x00010800 5 0) (1 + k)) = 7"
    and b1: "\<not> menuShouldExit (example_rosalina 0x00010800 0 0)"
    and b2: "info_type example_rdecls (\<lambda>k. cmdbuf (example_rosalina 0x00010800 0 0) (1 + k))
       \<noteq> ERRF_ERRTYPE_LOGGED example_rdecls"
    by (simp_all add: exr_fields exr_decls)
  note T1 = throw_always_replies [OF a refl refl refl, of example_rdecls True "[]"]
  note T2 = throw_always_replies [OF b refl refl refl, of example_rdecls True "[(0, 0), (1, 0)]"]
  note T3 = throw_always_replies [OF b refl refl refl, of example_rdecls True "[(0, 0)]"]
  have w: "waitInput example_rdecls (example_rosalina 0x00010800 0 0) [(0, 0), (1, 0)] \<noteq> None"
    by (intro waitInput_returns) (simp add: exr_decls)
  have n: "waitInput example_rdecls (example_rosalina 0x00010800 0 0) [(0, 0)] = None"
    by (simp add: waitInput_def waitInputWithTimeout_def exr_fields exr_decls convertHidKeys_def)
  from T1 a1 a2 have c1: "ERRF_HandleCommands example_rdecls True [] (example_rosalina 0x00010800 5 0)
       = Some ((example_rosalina 0x00010800 5 0)
                \<lparr>cmdbuf := (cmdbuf (example_rosalina 0x00010800 5 0))(0 := 0x00010040, 1 := 0)\<rparr>)"
    by (simp add: exr_decls(3))
  from T2 b1 b2 w have c2: "ERRF_HandleCommands example_rdecls True [(0, 0), (1, 0)] (example_rosalina 0x00010800 0 0)
       = Some ((menuLeave (ERRF_DisplayError example_rdecls (\<lambda>k. cmdbuf (example_rosalina 0x00010800 0 0) (1 + k))
                  (emit [Draw_ClearFramebuffer, Draw_FlushFramebuffer]
                     (menuEnter True (example_rosalina 0x00010800 0 0)))))
                \<lparr>cmdbuf := (cmdbuf (example_rosalina 0x00010800 0 0))(0 := 0x00010040, 1 := 0)\<rparr>)"
    by (simp add: exr_decls(3))
  from T3 b1 b2 n have c3: "ERRF_HandleCommands example_rdecls True [(0, 0)] (example_rosalina 0x00010800 0 0) = None"
    by simp
  from a a1 a2 c1 b b1 b2 w c2 n c3 show ?thesis by blast
qed

end
